theory Spec2Isabelle
  imports Main "HOL-Library.Sublist"
begin

section \<open>The JavaScript runtime, as far as the modelled code uses it\<close>

text \<open>
  Strings are byte lists: an ASCII character is one \<^typ>\<open>char\<close>, any other character
  is the bytes of its UTF-8 encoding (the encoding of the source files). Equality and
  containment of strings are the same on both representations; the modelled code never
  takes the length of a string nor indexes into one.

  \<^verbatim>\<open>String.prototype.includes\<close> is \<^const>\<open>sublist\<close> of the library
  (contiguous, and executable through its code equations).
\<close>

text \<open>\<^verbatim>\<open>!!process.env.X\<close>: an environment variable is truthy when it is set and not empty.\<close>

definition truthy :: "string option \<Rightarrow> bool" where
  "truthy v = (case v of None \<Rightarrow> False | Some s \<Rightarrow> s \<noteq> [])"

text \<open>
  \<^verbatim>\<open>String.prototype.trim\<close>. The white space recognised here is the ASCII part of
  ECMAScript's WhiteSpace and LineTerminator; both template literals that the code trims
  start and end with a line feed next to an ASCII letter, so no other character is ever
  inspected.
\<close>

definition is_whitespace :: "char \<Rightarrow> bool" where
  "is_whitespace c =
     (c = CHR 0x09 \<or> c = CHR 0x0A \<or> c = CHR 0x0B \<or> c = CHR 0x0C \<or> c = CHR 0x0D \<or> c = CHR 0x20)"

definition trimStart :: "string \<Rightarrow> string" where
  "trimStart s = dropWhile is_whitespace s"

definition trimEnd :: "string \<Rightarrow> string" where
  "trimEnd s = rev (dropWhile is_whitespace (rev s))"

definition trim :: "string \<Rightarrow> string" where
  "trim s = trimEnd (trimStart s)"

text \<open>\<^verbatim>\<open>Array.prototype.join\<close> on an array of strings.\<close>

fun join :: "string \<Rightarrow> string list \<Rightarrow> string" where
  "join sep [] = []"
| "join sep [x] = x"
| "join sep (x # y # ys) = x @ sep @ join sep (y # ys)"

text \<open>Decimal digits of a natural number, as \<^verbatim>\<open>Number.prototype.toString\<close> prints an
  integer such as an HTTP status.\<close>

fun decimal :: "nat \<Rightarrow> string" where
  "decimal n =
     (if n < 10 then [''0123456789'' ! n]
      else decimal (n div 10) @ [''0123456789'' ! (n mod 10)])"

declare decimal.simps [simp del]

text \<open>
  Reading \<^verbatim>\<open>table[key]\<close> from an object literal. The key is an own property of the
  literal, or it names a member that every object inherits from
  \<^verbatim>\<open>Object.prototype\<close>, or the read gives \<^verbatim>\<open>undefined\<close>.
\<close>

datatype 'a property = Own 'a | Inherited string | Undefined

definition Object_prototype :: "string list" where
  "Object_prototype =
     [''constructor'', ''__defineGetter__'', ''__defineSetter__'', ''hasOwnProperty'',
      ''__lookupGetter__'', ''__lookupSetter__'', ''isPrototypeOf'', ''propertyIsEnumerable'',
      ''toString'', ''valueOf'', ''__proto__'', ''toLocaleString'']"

definition get_property :: "(string \<times> 'a) list \<Rightarrow> string \<Rightarrow> 'a property" where
  "get_property table key =
     (case map_of table key of
        Some v \<Rightarrow> Own v
      | None \<Rightarrow> if key \<in> set Object_prototype then Inherited key else Undefined)"

text \<open>
  A property read placed in a template literal. An own property of the tables below is a
  string and is inserted as it is; \<^verbatim>\<open>undefined\<close> is inserted as the nine letters of
  its name; an inherited member is a built-in function, printed by Node.js as
  \<^verbatim>\<open>function name() { [native code] }\<close>, except for \<^verbatim>\<open>__proto__\<close>, which is
  the prototype object itself. None of the three cases throws.
\<close>

definition inherited_text :: "string \<Rightarrow> string" where
  "inherited_text key =
     (if key = ''__proto__'' then ''[object Object]''
      else ''function '' @ (if key = ''constructor'' then ''Object'' else key)
           @ ''() { [native code] }'')"

definition interpolate :: "string property \<Rightarrow> string" where
  "interpolate p =
     (case p of Own s \<Rightarrow> s | Inherited key \<Rightarrow> inherited_text key | Undefined \<Rightarrow> ''undefined'')"

section \<open>The request model (\<^verbatim>\<open>types/generation.ts\<close>)\<close>

text \<open>
  The closed enumerations of the TypeScript types are strings at run time; the model keeps
  them as strings so that a value outside an enumeration can be given to the functions.
  The lists below are the members of each enumeration.
\<close>

definition BuildingType :: "string list" where
  "BuildingType = [''house'', ''apartment'', ''building'', ''shop'']"

definition LandShape :: "string list" where
  "LandShape = [''rectangle'', ''square'', ''L-shape'', ''flag'', ''irregular'']"

definition ArchitecturalStyle :: "string list" where
  "ArchitecturalStyle =
     [''modern_minimal'', ''japanese_modern'', ''scandinavian'', ''industrial'', ''luxury'',
      ''mediterranean'', ''american'']"

definition WallMaterial :: "string list" where
  "WallMaterial = [''siding'', ''concrete'', ''tile'', ''wood'', ''metal'', ''stucco'']"

definition RoofType :: "string list" where
  "RoofType = [''flat'', ''gable'', ''hip'', ''shed'', ''gambrel'']"

definition CameraAngle :: "string list" where
  "CameraAngle = [''front'', ''angle45'', ''aerial'', ''birdseye'', ''closeup'', ''distant'']"

definition TimeOfDay :: "string list" where
  "TimeOfDay = [''morning'', ''noon'', ''evening'', ''night'']"

definition Season :: "string list" where
  "Season = [''spring'', ''summer'', ''autumn'', ''winter'']"

definition Resolution :: "string list" where
  "Resolution = [''sd'', ''hd'', ''4k'']"

definition AIModel :: "string list" where
  "AIModel = [''auto'', ''imagen4'', ''flux2'', ''gemini'', ''nano-banana'']"

record Materials =
  wall :: string
  roof :: string

record Colors =
  primary :: string
  secondary :: string
  accent :: string

record Environment =
  timeOfDay :: string
  season :: string

record Camera =
  angle :: string

record Options =
  count :: nat
  resolution :: string
  model :: string

text \<open>
  The fields \<open>floors\<close>, \<open>totalArea\<close> and \<open>landArea\<close> are JavaScript numbers. The code
  does one thing with them: it places them in a template literal, which prints them with
  \<^verbatim>\<open>Number.prototype.toString\<close>. The type of numbers is therefore a parameter
  \<open>'n\<close> of the request, and the functions that print one take the printing function as
  their first argument.
\<close>

record 'n GenerationRequest =
  buildingType :: string
  floors :: 'n
  totalArea :: 'n
  landArea :: 'n
  landShape :: string
  style :: string
  materials :: Materials
  colors :: Colors
  environment :: Environment
  camera :: Camera
  options :: Options

record GeneratedImage =
  url :: string
  thumbnailUrl :: string
  width :: nat
  height :: nat

text \<open>
  A style preset. The members \<^verbatim>\<open>id\<close>, \<^verbatim>\<open>name\<close> and \<^verbatim>\<open>keywords\<close> of the
  source are \<open>preset_id\<close>, \<open>preset_name\<close> and \<open>preset_keywords\<close> here. The members
  \<^verbatim>\<open>description\<close>, \<^verbatim>\<open>materials\<close> and \<^verbatim>\<open>colors\<close> are read by the user
  interface only and are left out.
\<close>

record StylePreset =
  preset_id :: string
  preset_name :: string
  nameJa :: string
  preset_keywords :: "string list"

text \<open>Preset \<^verbatim>\<open>modern_minimal\<close>. In code points, \<open>nameJa\<close> is U+30E2 U+30C0 U+30F3 U+30DF U+30CB U+30DE U+30EB and the keywords are U+76F4 U+7DDA U+7684 / U+30AC U+30E9 U+30B9 / U+30B7 U+30F3 U+30D7 U+30EB / U+767D U+57FA U+8ABF.\<close>

definition preset_modern_minimal :: StylePreset where
  "preset_modern_minimal = \<lparr>
     preset_id = ''modern_minimal'',
     preset_name = ''Modern Minimal'',
     nameJa = [CHR 0xE3, CHR 0x83, CHR 0xA2, CHR 0xE3, CHR 0x83, CHR 0x80, CHR 0xE3, CHR 0x83, CHR 0xB3, CHR 0xE3, CHR 0x83, CHR 0x9F, CHR 0xE3, CHR 0x83, CHR 0x8B, CHR 0xE3, CHR 0x83, CHR 0x9E, CHR 0xE3, CHR 0x83, CHR 0xAB],
     preset_keywords = [
       [CHR 0xE7, CHR 0x9B, CHR 0xB4, CHR 0xE7, CHR 0xB7, CHR 0x9A, CHR 0xE7, CHR 0x9A, CHR 0x84],
       [CHR 0xE3, CHR 0x82, CHR 0xAC, CHR 0xE3, CHR 0x83, CHR 0xA9, CHR 0xE3, CHR 0x82, CHR 0xB9],
       [CHR 0xE3, CHR 0x82, CHR 0xB7, CHR 0xE3, CHR 0x83, CHR 0xB3, CHR 0xE3, CHR 0x83, CHR 0x97, CHR 0xE3, CHR 0x83, CHR 0xAB],
       [CHR 0xE7, CHR 0x99, CHR 0xBD, CHR 0xE5, CHR 0x9F, CHR 0xBA, CHR 0xE8, CHR 0xAA, CHR 0xBF]]\<rparr>"

text \<open>Preset \<^verbatim>\<open>japanese_modern\<close>. In code points, \<open>nameJa\<close> is U+548C U+30E2 U+30C0 U+30F3 and the keywords are U+6728 U+6750 / U+683C U+5B50 / U+571F U+9593 / U+81EA U+7136 U+7D20 U+6750.\<close>

definition preset_japanese_modern :: StylePreset where
  "preset_japanese_modern = \<lparr>
     preset_id = ''japanese_modern'',
     preset_name = ''Japanese Modern'',
     nameJa = [CHR 0xE5, CHR 0x92, CHR 0x8C, CHR 0xE3, CHR 0x83, CHR 0xA2, CHR 0xE3, CHR 0x83, CHR 0x80, CHR 0xE3, CHR 0x83, CHR 0xB3],
     preset_keywords = [
       [CHR 0xE6, CHR 0x9C, CHR 0xA8, CHR 0xE6, CHR 0x9D, CHR 0x90],
       [CHR 0xE6, CHR 0xA0, CHR 0xBC, CHR 0xE5, CHR 0xAD, CHR 0x90],
       [CHR 0xE5, CHR 0x9C, CHR 0x9F, CHR 0xE9, CHR 0x96, CHR 0x93],
       [CHR 0xE8, CHR 0x87, CHR 0xAA, CHR 0xE7, CHR 0x84, CHR 0xB6, CHR 0xE7, CHR 0xB4, CHR 0xA0, CHR 0xE6, CHR 0x9D, CHR 0x90]]\<rparr>"

text \<open>Preset \<^verbatim>\<open>scandinavian\<close>. In code points, \<open>nameJa\<close> is U+5317 U+6B27 U+30B9 U+30BF U+30A4 U+30EB and the keywords are U+4E09 U+89D2 U+5C4B U+6839 / U+6E29 U+304B U+307F / U+81EA U+7136 U+7D20 U+6750 / U+30B7 U+30F3 U+30D7 U+30EB.\<close>

definition preset_scandinavian :: StylePreset where
  "preset_scandinavian = \<lparr>
     preset_id = ''scandinavian'',
     preset_name = ''Scandinavian'',
     nameJa = [CHR 0xE5, CHR 0x8C, CHR 0x97, CHR 0xE6, CHR 0xAC, CHR 0xA7, CHR 0xE3, CHR 0x82, CHR 0xB9, CHR 0xE3, CHR 0x82, CHR 0xBF, CHR 0xE3, CHR 0x82, CHR 0xA4, CHR 0xE3, CHR 0x83, CHR 0xAB],
     preset_keywords = [
       [CHR 0xE4, CHR 0xB8, CHR 0x89, CHR 0xE8, CHR 0xA7, CHR 0x92, CHR 0xE5, CHR 0xB1, CHR 0x8B, CHR 0xE6, CHR 0xA0, CHR 0xB9],
       [CHR 0xE6, CHR 0xB8, CHR 0xA9, CHR 0xE3, CHR 0x81, CHR 0x8B, CHR 0xE3, CHR 0x81, CHR 0xBF],
       [CHR 0xE8, CHR 0x87, CHR 0xAA, CHR 0xE7, CHR 0x84, CHR 0xB6, CHR 0xE7, CHR 0xB4, CHR 0xA0, CHR 0xE6, CHR 0x9D, CHR 0x90],
       [CHR 0xE3, CHR 0x82, CHR 0xB7, CHR 0xE3, CHR 0x83, CHR 0xB3, CHR 0xE3, CHR 0x83, CHR 0x97, CHR 0xE3, CHR 0x83, CHR 0xAB]]\<rparr>"

text \<open>Preset \<^verbatim>\<open>industrial\<close>. In code points, \<open>nameJa\<close> is U+30A4 U+30F3 U+30C0 U+30B9 U+30C8 U+30EA U+30A2 U+30EB and the keywords are U+9244 U+9AA8 / U+30B3 U+30F3 U+30AF U+30EA U+30FC U+30C8 / U+7121 U+9AA8 / U+30ED U+30D5 U+30C8.\<close>

definition preset_industrial :: StylePreset where
  "preset_industrial = \<lparr>
     preset_id = ''industrial'',
     preset_name = ''Industrial'',
     nameJa = [CHR 0xE3, CHR 0x82, CHR 0xA4, CHR 0xE3, CHR 0x83, CHR 0xB3, CHR 0xE3, CHR 0x83, CHR 0x80, CHR 0xE3, CHR 0x82, CHR 0xB9, CHR 0xE3, CHR 0x83, CHR 0x88, CHR 0xE3, CHR 0x83, CHR 0xAA, CHR 0xE3, CHR 0x82, CHR 0xA2, CHR 0xE3, CHR 0x83, CHR 0xAB],
     preset_keywords = [
       [CHR 0xE9, CHR 0x89, CHR 0x84, CHR 0xE9, CHR 0xAA, CHR 0xA8],
       [CHR 0xE3, CHR 0x82, CHR 0xB3, CHR 0xE3, CHR 0x83, CHR 0xB3, CHR 0xE3, CHR 0x82, CHR 0xAF, CHR 0xE3, CHR 0x83, CHR 0xAA, CHR 0xE3, CHR 0x83, CHR 0xBC, CHR 0xE3, CHR 0x83, CHR 0x88],
       [CHR 0xE7, CHR 0x84, CHR 0xA1, CHR 0xE9, CHR 0xAA, CHR 0xA8],
       [CHR 0xE3, CHR 0x83, CHR 0xAD, CHR 0xE3, CHR 0x83, CHR 0x95, CHR 0xE3, CHR 0x83, CHR 0x88]]\<rparr>"

text \<open>Preset \<^verbatim>\<open>luxury\<close>. In code points, \<open>nameJa\<close> is U+30E9 U+30B0 U+30B8 U+30E5 U+30A2 U+30EA U+30FC and the keywords are U+9AD8 U+7D1A / U+91CD U+539A / U+30B7 U+30F3 U+30E1 U+30C8 U+30EA U+30FC / U+77F3 U+6750.\<close>

definition preset_luxury :: StylePreset where
  "preset_luxury = \<lparr>
     preset_id = ''luxury'',
     preset_name = ''Luxury'',
     nameJa = [CHR 0xE3, CHR 0x83, CHR 0xA9, CHR 0xE3, CHR 0x82, CHR 0xB0, CHR 0xE3, CHR 0x82, CHR 0xB8, CHR 0xE3, CHR 0x83, CHR 0xA5, CHR 0xE3, CHR 0x82, CHR 0xA2, CHR 0xE3, CHR 0x83, CHR 0xAA, CHR 0xE3, CHR 0x83, CHR 0xBC],
     preset_keywords = [
       [CHR 0xE9, CHR 0xAB, CHR 0x98, CHR 0xE7, CHR 0xB4, CHR 0x9A],
       [CHR 0xE9, CHR 0x87, CHR 0x8D, CHR 0xE5, CHR 0x8E, CHR 0x9A],
       [CHR 0xE3, CHR 0x82, CHR 0xB7, CHR 0xE3, CHR 0x83, CHR 0xB3, CHR 0xE3, CHR 0x83, CHR 0xA1, CHR 0xE3, CHR 0x83, CHR 0x88, CHR 0xE3, CHR 0x83, CHR 0xAA, CHR 0xE3, CHR 0x83, CHR 0xBC],
       [CHR 0xE7, CHR 0x9F, CHR 0xB3, CHR 0xE6, CHR 0x9D, CHR 0x90]]\<rparr>"

text \<open>Preset \<^verbatim>\<open>mediterranean\<close>. In code points, \<open>nameJa\<close> is U+5357 U+6B27 U+30B9 U+30BF U+30A4 U+30EB and the keywords are U+30C6 U+30E9 U+30B3 U+30C3 U+30BF / U+767D U+58C1 / U+30A2 U+30FC U+30C1 / U+5730 U+4E2D U+6D77.\<close>

definition preset_mediterranean :: StylePreset where
  "preset_mediterranean = \<lparr>
     preset_id = ''mediterranean'',
     preset_name = ''Mediterranean'',
     nameJa = [CHR 0xE5, CHR 0x8D, CHR 0x97, CHR 0xE6, CHR 0xAC, CHR 0xA7, CHR 0xE3, CHR 0x82, CHR 0xB9, CHR 0xE3, CHR 0x82, CHR 0xBF, CHR 0xE3, CHR 0x82, CHR 0xA4, CHR 0xE3, CHR 0x83, CHR 0xAB],
     preset_keywords = [
       [CHR 0xE3, CHR 0x83, CHR 0x86, CHR 0xE3, CHR 0x83, CHR 0xA9, CHR 0xE3, CHR 0x82, CHR 0xB3, CHR 0xE3, CHR 0x83, CHR 0x83, CHR 0xE3, CHR 0x82, CHR 0xBF],
       [CHR 0xE7, CHR 0x99, CHR 0xBD, CHR 0xE5, CHR 0xA3, CHR 0x81],
       [CHR 0xE3, CHR 0x82, CHR 0xA2, CHR 0xE3, CHR 0x83, CHR 0xBC, CHR 0xE3, CHR 0x83, CHR 0x81],
       [CHR 0xE5, CHR 0x9C, CHR 0xB0, CHR 0xE4, CHR 0xB8, CHR 0xAD, CHR 0xE6, CHR 0xB5, CHR 0xB7]]\<rparr>"

text \<open>Preset \<^verbatim>\<open>american\<close>. In code points, \<open>nameJa\<close> is U+30A2 U+30E1 U+30EA U+30AB U+30F3 and the keywords are U+30E9 U+30C3 U+30D7 U+30B5 U+30A4 U+30C7 U+30A3 U+30F3 U+30B0 / U+30DD U+30FC U+30C1 / U+30AC U+30EC U+30FC U+30B8 / U+90CA U+5916.\<close>

definition preset_american :: StylePreset where
  "preset_american = \<lparr>
     preset_id = ''american'',
     preset_name = ''American'',
     nameJa = [CHR 0xE3, CHR 0x82, CHR 0xA2, CHR 0xE3, CHR 0x83, CHR 0xA1, CHR 0xE3, CHR 0x83, CHR 0xAA, CHR 0xE3, CHR 0x82, CHR 0xAB, CHR 0xE3, CHR 0x83, CHR 0xB3],
     preset_keywords = [
       [CHR 0xE3, CHR 0x83, CHR 0xA9, CHR 0xE3, CHR 0x83, CHR 0x83, CHR 0xE3, CHR 0x83, CHR 0x97, CHR 0xE3, CHR 0x82, CHR 0xB5, CHR 0xE3, CHR 0x82, CHR 0xA4, CHR 0xE3, CHR 0x83, CHR 0x87, CHR 0xE3, CHR 0x82, CHR 0xA3, CHR 0xE3, CHR 0x83, CHR 0xB3, CHR 0xE3, CHR 0x82, CHR 0xB0],
       [CHR 0xE3, CHR 0x83, CHR 0x9D, CHR 0xE3, CHR 0x83, CHR 0xBC, CHR 0xE3, CHR 0x83, CHR 0x81],
       [CHR 0xE3, CHR 0x82, CHR 0xAC, CHR 0xE3, CHR 0x83, CHR 0xAC, CHR 0xE3, CHR 0x83, CHR 0xBC, CHR 0xE3, CHR 0x82, CHR 0xB8],
       [CHR 0xE9, CHR 0x83, CHR 0x8A, CHR 0xE5, CHR 0xA4, CHR 0x96]]\<rparr>"

definition STYLE_PRESETS :: "StylePreset list" where
  "STYLE_PRESETS =
     [preset_modern_minimal, preset_japanese_modern, preset_scandinavian, preset_industrial,
      preset_luxury, preset_mediterranean, preset_american]"

text \<open>In code points: siding is U+30B5 U+30A4 U+30C7 U+30A3 U+30F3 U+30B0; concrete is U+30B3 U+30F3 U+30AF U+30EA U+30FC U+30C8; tile is U+30BF U+30A4 U+30EB; wood is U+6728 U+6750; metal is U+91D1 U+5C5E U+30D1 U+30CD U+30EB; stucco is U+5857 U+308A U+58C1.\<close>

definition MATERIAL_NAMES :: "(string \<times> string) list" where
  "MATERIAL_NAMES = [
     (''siding'', [CHR 0xE3, CHR 0x82, CHR 0xB5, CHR 0xE3, CHR 0x82, CHR 0xA4, CHR 0xE3, CHR 0x83, CHR 0x87, CHR 0xE3, CHR 0x82, CHR 0xA3, CHR 0xE3, CHR 0x83, CHR 0xB3, CHR 0xE3, CHR 0x82, CHR 0xB0]),
     (''concrete'', [CHR 0xE3, CHR 0x82, CHR 0xB3, CHR 0xE3, CHR 0x83, CHR 0xB3, CHR 0xE3, CHR 0x82, CHR 0xAF, CHR 0xE3, CHR 0x83, CHR 0xAA, CHR 0xE3, CHR 0x83, CHR 0xBC, CHR 0xE3, CHR 0x83, CHR 0x88]),
     (''tile'', [CHR 0xE3, CHR 0x82, CHR 0xBF, CHR 0xE3, CHR 0x82, CHR 0xA4, CHR 0xE3, CHR 0x83, CHR 0xAB]),
     (''wood'', [CHR 0xE6, CHR 0x9C, CHR 0xA8, CHR 0xE6, CHR 0x9D, CHR 0x90]),
     (''metal'', [CHR 0xE9, CHR 0x87, CHR 0x91, CHR 0xE5, CHR 0xB1, CHR 0x9E, CHR 0xE3, CHR 0x83, CHR 0x91, CHR 0xE3, CHR 0x83, CHR 0x8D, CHR 0xE3, CHR 0x83, CHR 0xAB]),
     (''stucco'', [CHR 0xE5, CHR 0xA1, CHR 0x97, CHR 0xE3, CHR 0x82, CHR 0x8A, CHR 0xE5, CHR 0xA3, CHR 0x81])]"

text \<open>In code points: flat is U+9678 U+5C4B U+6839; gable is U+5207 U+59BB U+5C4B U+6839; hip is U+5BC4 U+68DF U+5C4B U+6839; shed is U+7247 U+6D41 U+308C U+5C4B U+6839; gambrel is U+5165 U+6BCD U+5C4B U+5C4B U+6839.\<close>

definition ROOF_NAMES :: "(string \<times> string) list" where
  "ROOF_NAMES = [
     (''flat'', [CHR 0xE9, CHR 0x99, CHR 0xB8, CHR 0xE5, CHR 0xB1, CHR 0x8B, CHR 0xE6, CHR 0xA0, CHR 0xB9]),
     (''gable'', [CHR 0xE5, CHR 0x88, CHR 0x87, CHR 0xE5, CHR 0xA6, CHR 0xBB, CHR 0xE5, CHR 0xB1, CHR 0x8B, CHR 0xE6, CHR 0xA0, CHR 0xB9]),
     (''hip'', [CHR 0xE5, CHR 0xAF, CHR 0x84, CHR 0xE6, CHR 0xA3, CHR 0x9F, CHR 0xE5, CHR 0xB1, CHR 0x8B, CHR 0xE6, CHR 0xA0, CHR 0xB9]),
     (''shed'', [CHR 0xE7, CHR 0x89, CHR 0x87, CHR 0xE6, CHR 0xB5, CHR 0x81, CHR 0xE3, CHR 0x82, CHR 0x8C, CHR 0xE5, CHR 0xB1, CHR 0x8B, CHR 0xE6, CHR 0xA0, CHR 0xB9]),
     (''gambrel'', [CHR 0xE5, CHR 0x85, CHR 0xA5, CHR 0xE6, CHR 0xAF, CHR 0x8D, CHR 0xE5, CHR 0xB1, CHR 0x8B, CHR 0xE5, CHR 0xB1, CHR 0x8B, CHR 0xE6, CHR 0xA0, CHR 0xB9])]"

section \<open>The prompt builder (\<^verbatim>\<open>lib/ai/prompt-builder.ts\<close>)\<close>

text \<open>The four tables that \<^verbatim>\<open>buildPrompt\<close> declares as local constants.\<close>

definition buildingTypeMap :: "(string \<times> string) list" where
  "buildingTypeMap = [
     (''house'', ''residential house''),
     (''apartment'', ''apartment building''),
     (''building'', ''commercial building''),
     (''shop'', ''retail shop building'')]"

definition timeMap :: "(string \<times> string) list" where
  "timeMap = [
     (''morning'', ''early morning golden hour light''),
     (''noon'', ''bright midday sunlight''),
     (''evening'', ''warm sunset lighting''),
     (''night'', ''evening with ambient lighting and interior lights on'')]"

definition seasonMap :: "(string \<times> string) list" where
  "seasonMap = [
     (''spring'', ''spring season with cherry blossoms''),
     (''summer'', ''summer with lush green vegetation''),
     (''autumn'', ''autumn with colorful foliage''),
     (''winter'', ''winter with bare trees'')]"

definition cameraMap :: "(string \<times> string) list" where
  "cameraMap = [
     (''front'', ''front elevation view, eye-level perspective''),
     (''angle45'', ''three-quarter view at 45 degrees, showing two facades''),
     (''aerial'', ''aerial view from 30 degrees above''),
     (''birdseye'', ''bird'' @ [CHR 0x27] @ ''s eye view from directly above''),
     (''closeup'', ''close-up view of the entrance''),
     (''distant'', ''distant view showing the building in its environment'')]"

text \<open>
  \<^verbatim>\<open>style?.name || 'Modern'\<close> and \<^verbatim>\<open>style?.keywords.join(', ') || ''\<close>: the
  right operand is taken when no preset was found and also when the left string is empty.
\<close>

definition styleName_of :: "StylePreset option \<Rightarrow> string" where
  "styleName_of found =
     (case found of
        None \<Rightarrow> ''Modern''
      | Some s \<Rightarrow> if preset_name s = [] then ''Modern'' else preset_name s)"

definition styleKeywords_of :: "StylePreset option \<Rightarrow> string" where
  "styleKeywords_of found =
     (case found of
        None \<Rightarrow> []
      | Some s \<Rightarrow> if join '', '' (preset_keywords s) = [] then [] else join '', '' (preset_keywords s))"

text \<open>
  The template literal of \<^verbatim>\<open>buildPrompt\<close> between its first and its last line
  feed, cut into one list element for each piece of fixed text up to a line break and one
  for each inserted value.
\<close>

definition prompt_text :: "string \<Rightarrow> string \<Rightarrow> ('n \<Rightarrow> string) \<Rightarrow> 'n GenerationRequest \<Rightarrow> string list" where
  "prompt_text styleName styleKeywords toString request = [
        ''Photorealistic architectural exterior rendering of a '',
        styleName,
        '' '',
        interpolate (get_property buildingTypeMap (buildingType request)),
        ''.\<newline>'',
        ''\<newline>'',
        ''BUILDING SPECIFICATIONS:\<newline>'',
        ''- Number of floors: '',
        toString (floors request),
        ''\<newline>'',
        ''- Total floor area: approximately '',
        toString (totalArea request),
        '' square meters\<newline>'',
        ''- Land area: approximately '',
        toString (landArea request),
        '' square meters\<newline>'',
        ''- Land shape: '',
        landShape request,
        ''\<newline>'',
        ''\<newline>'',
        ''ARCHITECTURAL STYLE:\<newline>'',
        ''- Style: '',
        styleName,
        ''\<newline>'',
        ''- Design characteristics: '',
        styleKeywords,
        ''\<newline>'',
        ''\<newline>'',
        ''MATERIALS AND FINISHES:\<newline>'',
        ''- Exterior wall: '',
        interpolate (get_property MATERIAL_NAMES (wall (materials request))),
        ''\<newline>'',
        ''- Roof type: '',
        interpolate (get_property ROOF_NAMES (roof (materials request))),
        ''\<newline>'',
        ''- Primary color: '',
        primary (colors request),
        ''\<newline>'',
        ''- Secondary color: '',
        secondary (colors request),
        ''\<newline>'',
        ''- Accent color: '',
        accent (colors request),
        ''\<newline>'',
        ''\<newline>'',
        ''ENVIRONMENT AND LIGHTING:\<newline>'',
        ''- Time of day: '',
        interpolate (get_property timeMap (timeOfDay (environment request))),
        ''\<newline>'',
        ''- Season: '',
        interpolate (get_property seasonMap (season (environment request))),
        ''\<newline>'',
        ''- Weather: clear sky with soft natural shadows\<newline>'',
        ''\<newline>'',
        ''CAMERA AND COMPOSITION:\<newline>'',
        ''- View angle: '',
        interpolate (get_property cameraMap (angle (camera request))),
        ''\<newline>'',
        ''- Lens: professional architectural photography, 24mm wide-angle equivalent\<newline>'',
        ''- Focus: sharp throughout, architectural photography style\<newline>'',
        ''\<newline>'',
        ''QUALITY REQUIREMENTS:\<newline>'',
        ''- Photorealistic quality\<newline>'',
        ''- High detail on materials and textures\<newline>'',
        ''- Professional architectural visualization\<newline>'',
        ''- Natural landscaping with appropriate vegetation\<newline>'',
        ''- Realistic shadows and reflections\<newline>'',
        ''- Clean, modern presentation'']"

definition buildPrompt :: "('n \<Rightarrow> string) \<Rightarrow> 'n GenerationRequest \<Rightarrow> string" where
  "buildPrompt toString request =
     (let style' = find (\<lambda>s. preset_id s = style request) STYLE_PRESETS;
          styleName = styleName_of style';
          styleKeywords = styleKeywords_of style'
      in trim (''\<newline>'' @ concat (prompt_text styleName styleKeywords toString request)
               @ ''\<newline>''))"

text \<open>The template literal of \<^verbatim>\<open>buildNegativePrompt\<close>, cut in the same way.\<close>

definition negative_text :: "string list" where
  "negative_text = [
     ''blurry, low quality, distorted, cartoon, anime, illustration, \<newline>'',
     ''sketch, painting, unrealistic, fantasy, floating objects,\<newline>'',
     ''people, cars, animals, text overlay, watermark, signature,\<newline>'',
     ''unfinished construction, scaffolding, construction equipment,\<newline>'',
     ''disproportionate, impossible architecture, physically impossible'']"

definition buildNegativePrompt :: string where
  "buildNegativePrompt = trim (''\<newline>'' @ concat negative_text @ ''\<newline>'')"

text \<open>
  \<^verbatim>\<open>buildSummary\<close>. Its fixed pieces are, in code points: the fallback style name
  U+30E2 U+30C0 U+30F3; after the style name U+30B9 U+30BF U+30A4 U+30EB U+306E; after the
  floor count U+968E U+5EFA U+3066; the nouns U+4F4F U+5B85 (house), U+30DE U+30F3 U+30B7
  U+30E7 U+30F3 (apartment), U+30D3 U+30EB (building) and U+5E97 U+8217 (anything else);
  before the area U+FF08 U+5EF6 U+5E8A; after it U+33A1 U+FF09.
\<close>

definition buildSummary :: "('n \<Rightarrow> string) \<Rightarrow> 'n GenerationRequest \<Rightarrow> string" where
  "buildSummary toString request =
     (let style' = find (\<lambda>s. preset_id s = style request) STYLE_PRESETS
      in concat [
        (case style' of
           None \<Rightarrow> [CHR 0xE3, CHR 0x83, CHR 0xA2, CHR 0xE3, CHR 0x83, CHR 0x80, CHR 0xE3, CHR 0x83, CHR 0xB3]
         | Some s \<Rightarrow>
             if nameJa s = []
             then [CHR 0xE3, CHR 0x83, CHR 0xA2, CHR 0xE3, CHR 0x83, CHR 0x80, CHR 0xE3, CHR 0x83, CHR 0xB3]
             else nameJa s),
        [CHR 0xE3, CHR 0x82, CHR 0xB9, CHR 0xE3, CHR 0x82, CHR 0xBF, CHR 0xE3, CHR 0x82, CHR 0xA4, CHR 0xE3, CHR 0x83, CHR 0xAB, CHR 0xE3, CHR 0x81, CHR 0xAE],
        toString (floors request),
        [CHR 0xE9, CHR 0x9A, CHR 0x8E, CHR 0xE5, CHR 0xBB, CHR 0xBA, CHR 0xE3, CHR 0x81, CHR 0xA6],
        (if buildingType request = ''house'' then [CHR 0xE4, CHR 0xBD, CHR 0x8F, CHR 0xE5, CHR 0xAE, CHR 0x85]
         else if buildingType request = ''apartment''
           then [CHR 0xE3, CHR 0x83, CHR 0x9E, CHR 0xE3, CHR 0x83, CHR 0xB3, CHR 0xE3, CHR 0x82, CHR 0xB7, CHR 0xE3, CHR 0x83, CHR 0xA7, CHR 0xE3, CHR 0x83, CHR 0xB3]
         else if buildingType request = ''building'' then [CHR 0xE3, CHR 0x83, CHR 0x93, CHR 0xE3, CHR 0x83, CHR 0xAB]
         else [CHR 0xE5, CHR 0xBA, CHR 0x97, CHR 0xE8, CHR 0x88, CHR 0x97]),
        [CHR 0xEF, CHR 0xBC, CHR 0x88, CHR 0xE5, CHR 0xBB, CHR 0xB6, CHR 0xE5, CHR 0xBA, CHR 0x8A],
        toString (totalArea request),
        [CHR 0xE3, CHR 0x8E, CHR 0xA1, CHR 0xEF, CHR 0xBC, CHR 0x89]])"

section \<open>The outside world of the provider clients\<close>

text \<open>\<^verbatim>\<open>process.env\<close>, with the three variables that the code reads.\<close>

record Env =
  FAL_KEY :: "string option"
  GOOGLE_CLOUD_PROJECT_ID :: "string option"
  GOOGLE_APPLICATION_CREDENTIALS :: "string option"

text \<open>
  Every \<^verbatim>\<open>throw\<close> of the code throws \<^verbatim>\<open>new Error(message)\<close>; an exception that
  the runtime raises while a response is fetched or read is kept with its message as well.
\<close>

datatype error = Error string

text \<open>
  What \<^verbatim>\<open>await fetch(...)\<close> followed by reading the response can give: the promise
  is rejected (no connection); a response whose \<^verbatim>\<open>ok\<close> is false, with its status,
  status text and body text; a response whose body parses to the shape the client expects;
  or a body that makes \<^verbatim>\<open>response.json()\<close> or the field access throw.
\<close>

datatype 'a response =
    Rejected string
  | NotOk nat string string
  | Json 'a
  | Malformed string

text \<open>
  Request bodies, with the fields that depend on the request. The settings that are the
  same in every call (\<^verbatim>\<open>guidance_scale\<close>, \<^verbatim>\<open>output_format\<close>,
  \<^verbatim>\<open>safety_tolerance\<close>, \<^verbatim>\<open>addWatermark\<close> and the like) are left out.
  A member of \<^verbatim>\<open>image_size\<close> is \<open>None\<close> when the code sends
  \<^verbatim>\<open>undefined\<close>.
\<close>

record FluxBody =
  flux_prompt :: string
  negative_prompt :: string
  image_size :: "nat option \<times> nat option"
  flux_num_images :: nat
  seed :: nat

record NanoBananaInput =
  nano_prompt :: string
  nano_resolution :: string
  nano_num_images :: nat
  aspect_ratio :: string

record ImagenRequest =
  imagen_prompt :: string
  negativePrompt :: string
  sampleCount :: nat
  aspectRatio :: string

datatype body = Flux FluxBody | NanoBanana NanoBananaInput | Imagen ImagenRequest

text \<open>The members of the response bodies that the clients read.\<close>

record FalImage =
  fal_url :: string
  fal_width :: nat
  fal_height :: nat

record NanoBananaImage =
  nano_url :: string
  nano_width :: "nat option"
  nano_height :: "nat option"

record Prediction =
  bytesBase64Encoded :: string
  mimeType :: string

text \<open>
  The world that one call of \<^verbatim>\<open>generateImages\<close> runs in: the environment, the two
  readings of \<^verbatim>\<open>Date.now()\<close>, the value of
  \<^verbatim>\<open>Math.floor(Math.random() * 1000000)\<close>, the outcome of asking
  \<^verbatim>\<open>google-auth-library\<close> for a token (\<open>None\<close> when the library throws, else the
  \<^verbatim>\<open>token\<close> member, which may be missing), and the answer of each provider to a
  request body.
\<close>

record World =
  env :: Env
  Date_now_start :: int
  Date_now_end :: int
  Math_random :: nat
  google_auth :: "string option option"
  flux_api :: "FluxBody \<Rightarrow> FalImage list response"
  nano_banana_api :: "NanoBananaInput \<Rightarrow> NanoBananaImage list response"
  imagen_api :: "ImagenRequest \<Rightarrow> Prediction list response"

text \<open>
  The effects of a call, in the order they happen: a provider client is entered, the
  authentication library is asked for a token, a request is sent with \<^verbatim>\<open>fetch\<close>
  (URL, \<^verbatim>\<open>Authorization\<close> header, body). Writing to the console is not recorded.
  A client runs from its first statement to its \<^verbatim>\<open>return\<close> or \<^verbatim>\<open>throw\<close>; the
  points where it awaits are not modelled, so a call is its trace together with its
  outcome. The member \<^verbatim>\<open>model\<close> of a result is \<open>out_model\<close> here, to keep it apart
  from the \<open>model\<close> of the request's options.
\<close>

datatype client = NanoBananaClient | ImagenClient | FluxClient

datatype event = Invoked client | AccessTokenRequested | Fetch string string body

record GenerationOutput =
  images :: "GeneratedImage list"
  prompt :: string
  out_model :: string
  timeMs :: int

type_synonym outcome = "event list \<times> (error + GenerationOutput)"

section \<open>FLUX 2 (\<^verbatim>\<open>lib/ai/flux.ts\<close>)\<close>

text \<open>The constant \<^verbatim>\<open>FAL_API_URL\<close> of this file.\<close>

definition FLUX_API_URL :: string where
  "FLUX_API_URL = ''https://fal.run/fal-ai/flux-pro/v1.1''"

definition sizeMap_hd :: "nat \<times> nat" where
  "sizeMap_hd = (1536, 1024)"

definition sizeMap :: "(string \<times> (nat \<times> nat)) list" where
  "sizeMap = [(''sd'', (1024, 768)), (''hd'', sizeMap_hd), (''4k'', (2048, 1536))]"

text \<open>
  \<^verbatim>\<open>const size = sizeMap[request.options.resolution] || sizeMap.hd\<close> and then
  \<^verbatim>\<open>size.width\<close>, \<^verbatim>\<open>size.height\<close>: an inherited member is truthy and has
  neither a width nor a height.
\<close>

definition flux_size :: "string \<Rightarrow> nat option \<times> nat option" where
  "flux_size res =
     (case get_property sizeMap res of
        Own s \<Rightarrow> (Some (fst s), Some (snd s))
      | Inherited key \<Rightarrow> (None, None)
      | Undefined \<Rightarrow> (Some (fst sizeMap_hd), Some (snd sizeMap_hd)))"

definition generateWithFlux :: "('n \<Rightarrow> string) \<Rightarrow> World \<Rightarrow> 'n GenerationRequest \<Rightarrow> outcome" where
  "generateWithFlux toString world request =
     (case FAL_KEY (env world) of
        None \<Rightarrow> ([Invoked FluxClient], Inl (Error ''FAL_KEY is not configured''))
      | Some apiKey \<Rightarrow>
          if apiKey = [] then ([Invoked FluxClient], Inl (Error ''FAL_KEY is not configured''))
          else
            let prompt = buildPrompt toString request;
                negativePrompt = buildNegativePrompt;
                size = flux_size (resolution (options request));
                startTime = Date_now_start world;
                sent = \<lparr>flux_prompt = prompt, negative_prompt = negativePrompt, image_size = size,
                        flux_num_images = count (options request), seed = Math_random world\<rparr>;
                trace = [Invoked FluxClient, Fetch FLUX_API_URL (''Key '' @ apiKey) (Flux sent)]
            in case flux_api world sent of
                 Rejected message \<Rightarrow> (trace, Inl (Error message))
               | NotOk status statusText text \<Rightarrow>
                   (trace, Inl (Error (''FLUX API error: '' @ decimal status @ '' - '' @ text)))
               | Malformed message \<Rightarrow> (trace, Inl (Error message))
               | Json data \<Rightarrow>
                   (trace, Inr \<lparr>
                      images = map (\<lambda>img. \<lparr>url = fal_url img, thumbnailUrl = fal_url img,
                                             width = fal_width img, height = fal_height img\<rparr>) data,
                      prompt = prompt,
                      out_model = ''flux2'',
                      timeMs = Date_now_end world - startTime\<rparr>))"

section \<open>Nano Banana Pro (\<^verbatim>\<open>lib/ai/nano-banana.ts\<close>)\<close>

text \<open>The constant \<^verbatim>\<open>FAL_API_URL\<close> of this file.\<close>

definition NANO_BANANA_API_URL :: string where
  "NANO_BANANA_API_URL = ''https://fal.run/fal-ai/nano-banana-pro''"

definition getResolution :: "string \<Rightarrow> string" where
  "getResolution res = (if res = ''4k'' then ''4K'' else if res = ''hd'' then ''2K'' else ''1K'')"

definition nano_getAspectRatio :: string where
  "nano_getAspectRatio = ''16:9''"

definition nano_getImageSize :: "string \<Rightarrow> nat \<times> nat" where
  "nano_getImageSize res =
     (if res = ''4k'' then (3840, 2160) else if res = ''hd'' then (1920, 1080) else (1280, 720))"

text \<open>\<^verbatim>\<open>img.width || imageSize.width\<close>: a missing number and the number 0 are falsy.\<close>

definition or_else :: "nat option \<Rightarrow> nat \<Rightarrow> nat" where
  "or_else v d = (case v of None \<Rightarrow> d | Some n \<Rightarrow> if n = 0 then d else n)"

definition generateWithNanoBanana :: "('n \<Rightarrow> string) \<Rightarrow> World \<Rightarrow> 'n GenerationRequest \<Rightarrow> outcome" where
  "generateWithNanoBanana toString world request =
     (case FAL_KEY (env world) of
        None \<Rightarrow> ([Invoked NanoBananaClient], Inl (Error ''FAL_KEY is not configured''))
      | Some apiKey \<Rightarrow>
          if apiKey = [] then ([Invoked NanoBananaClient], Inl (Error ''FAL_KEY is not configured''))
          else
            let prompt = buildPrompt toString request;
                startTime = Date_now_start world;
                input = \<lparr>nano_prompt = prompt,
                         nano_resolution = getResolution (resolution (options request)),
                         nano_num_images = count (options request),
                         aspect_ratio = nano_getAspectRatio\<rparr>;
                trace = [Invoked NanoBananaClient,
                         Fetch NANO_BANANA_API_URL (''Key '' @ apiKey) (NanoBanana input)]
            in case nano_banana_api world input of
                 Rejected message \<Rightarrow> (trace, Inl (Error message))
               | NotOk status statusText text \<Rightarrow>
                   (trace, Inl (Error (''Nano Banana Pro API error: '' @ decimal status @ '' - '' @ text)))
               | Malformed message \<Rightarrow> (trace, Inl (Error message))
               | Json data \<Rightarrow>
                   let imageSize = nano_getImageSize (resolution (options request))
                   in (trace, Inr \<lparr>
                        images = map (\<lambda>img. \<lparr>url = nano_url img, thumbnailUrl = nano_url img,
                                               width = or_else (nano_width img) (fst imageSize),
                                               height = or_else (nano_height img) (snd imageSize)\<rparr>) data,
                        prompt = prompt,
                        out_model = ''nano-banana'',
                        timeMs = Date_now_end world - startTime\<rparr>))"

definition isNanoBananaAvailable :: "Env \<Rightarrow> bool" where
  "isNanoBananaAvailable e = truthy (FAL_KEY e)"

section \<open>Imagen 4 (\<^verbatim>\<open>lib/ai/imagen.ts\<close>)\<close>

definition VERTEX_AI_ENDPOINT :: string where
  "VERTEX_AI_ENDPOINT = ''https://us-central1-aiplatform.googleapis.com''"

definition MODEL_ID :: string where
  "MODEL_ID = ''imagen-4.0-generate-001''"

text \<open>
  \<^verbatim>\<open>getAccessToken\<close>: the check of the credentials path is outside the
  \<^verbatim>\<open>try\<close> block; every failure inside it, the missing token included, is caught and
  thrown again as one authentication error.
\<close>

definition getAccessToken :: "World \<Rightarrow> event list \<times> (error + string)" where
  "getAccessToken world =
     (if \<not> truthy (GOOGLE_APPLICATION_CREDENTIALS (env world))
      then ([], Inl (Error ''GOOGLE_APPLICATION_CREDENTIALS is not set''))
      else case google_auth world of
             None \<Rightarrow> ([AccessTokenRequested], Inl (Error ''Google Cloud authentication failed''))
           | Some None \<Rightarrow> ([AccessTokenRequested], Inl (Error ''Google Cloud authentication failed''))
           | Some (Some token) \<Rightarrow>
               if token = []
               then ([AccessTokenRequested], Inl (Error ''Google Cloud authentication failed''))
               else ([AccessTokenRequested], Inr token))"

definition imagen_getAspectRatio :: "string \<Rightarrow> string" where
  "imagen_getAspectRatio res = ''16:9''"

definition imagen_getImageSize :: "string \<Rightarrow> nat \<times> nat" where
  "imagen_getImageSize res =
     (if res = ''4k'' then (3840, 2160) else if res = ''hd'' then (1920, 1080) else (1280, 720))"

definition generateWithImagen :: "('n \<Rightarrow> string) \<Rightarrow> World \<Rightarrow> 'n GenerationRequest \<Rightarrow> outcome" where
  "generateWithImagen toString world request =
     (let startTime = Date_now_start world
      in case GOOGLE_CLOUD_PROJECT_ID (env world) of
        None \<Rightarrow> ([Invoked ImagenClient], Inl (Error ''GOOGLE_CLOUD_PROJECT_ID is not set''))
      | Some projectId \<Rightarrow>
          if projectId = []
          then ([Invoked ImagenClient], Inl (Error ''GOOGLE_CLOUD_PROJECT_ID is not set''))
          else
            let prompt = buildPrompt toString request;
                negativePrompt = buildNegativePrompt
            in case getAccessToken world of
                 (asked, Inl e) \<Rightarrow> (Invoked ImagenClient # asked, Inl e)
               | (asked, Inr accessToken) \<Rightarrow>
                   let imagenRequest = \<lparr>imagen_prompt = prompt, negativePrompt = negativePrompt,
                                         sampleCount = count (options request),
                                         aspectRatio = imagen_getAspectRatio (resolution (options request))\<rparr>;
                       endpoint = VERTEX_AI_ENDPOINT @ ''/v1/projects/'' @ projectId
                                  @ ''/locations/us-central1/publishers/google/models/'' @ MODEL_ID
                                  @ '':predict'';
                       trace = Invoked ImagenClient # asked
                               @ [Fetch endpoint (''Bearer '' @ accessToken) (Imagen imagenRequest)]
                   in case imagen_api world imagenRequest of
                        Rejected message \<Rightarrow> (trace, Inl (Error message))
                      | NotOk status statusText text \<Rightarrow>
                          (trace, Inl (Error (''Imagen 4 API error: '' @ decimal status @ '' '' @ statusText)))
                      | Malformed message \<Rightarrow> (trace, Inl (Error message))
                      | Json data \<Rightarrow>
                          let imageSize = imagen_getImageSize (resolution (options request))
                          in (trace, Inr \<lparr>
                               images = map (\<lambda>prediction.
                                  let dataUrl = ''data:'' @ mimeType prediction @ '';base64,''
                                                @ bytesBase64Encoded prediction
                                  in \<lparr>url = dataUrl, thumbnailUrl = dataUrl,
                                      width = fst imageSize, height = snd imageSize\<rparr>) data,
                               prompt = prompt,
                               out_model = ''imagen4'',
                               timeMs = Date_now_end world - startTime\<rparr>))"

definition isImagen4Available :: "Env \<Rightarrow> bool" where
  "isImagen4Available e =
     (truthy (GOOGLE_CLOUD_PROJECT_ID e) \<and> truthy (GOOGLE_APPLICATION_CREDENTIALS e))"

section \<open>The dispatcher (\<^verbatim>\<open>lib/ai/index.ts\<close>)\<close>

definition generateImages :: "('n \<Rightarrow> string) \<Rightarrow> World \<Rightarrow> 'n GenerationRequest \<Rightarrow> outcome" where
  "generateImages toString world request =
     (let selectedModel = model (options request)
      in if selectedModel = ''auto'' then
           (if isNanoBananaAvailable (env world) then generateWithNanoBanana toString world request
            else if isImagen4Available (env world) then generateWithImagen toString world request
            else generateWithFlux toString world request)
         else if selectedModel = ''nano-banana'' then
           (if \<not> isNanoBananaAvailable (env world)
            then ([], Inl (Error ''Nano Banana Pro is not configured. Please set FAL_KEY.''))
            else generateWithNanoBanana toString world request)
         else if selectedModel = ''imagen4'' then
           (if \<not> isImagen4Available (env world)
            then ([], Inl (Error ''Imagen 4 is not configured. Please set GOOGLE_CLOUD_PROJECT_ID and GOOGLE_APPLICATION_CREDENTIALS.''))
            else generateWithImagen toString world request)
         else if selectedModel = ''flux2'' then generateWithFlux toString world request
         else if selectedModel = ''gemini'' then generateWithNanoBanana toString world request
         else generateWithNanoBanana toString world request)"

text \<open>
  \<^verbatim>\<open>getAvailableModels\<close>, with the \<^verbatim>\<open>id\<close> and \<^verbatim>\<open>available\<close> members of each
  entry (the display name and description are left out).
\<close>

definition getAvailableModels :: "Env \<Rightarrow> (string \<times> bool) list" where
  "getAvailableModels e = [
     (''auto'', True),
     (''nano-banana'', isNanoBananaAvailable e),
     (''imagen4'', isImagen4Available e),
     (''flux2'', truthy (FAL_KEY e)),
     (''gemini'', isNanoBananaAvailable e)]"

section \<open>Reading a trace\<close>

fun invoked :: "event list \<Rightarrow> client list" where
  "invoked [] = []"
| "invoked (Invoked c # es) = c # invoked es"
| "invoked (AccessTokenRequested # es) = invoked es"
| "invoked (Fetch u a b # es) = invoked es"

fun fetched :: "event list \<Rightarrow> body list" where
  "fetched [] = []"
| "fetched (Invoked c # es) = fetched es"
| "fetched (AccessTokenRequested # es) = fetched es"
| "fetched (Fetch u a b # es) = b # fetched es"

text \<open>The events that may leave the process.\<close>

fun outbound :: "event \<Rightarrow> bool" where
  "outbound (Invoked c) = False"
| "outbound AccessTokenRequested = True"
| "outbound (Fetch u a b) = True"

fun provider_of :: "body \<Rightarrow> client" where
  "provider_of (Flux b) = FluxClient"
| "provider_of (NanoBanana b) = NanoBananaClient"
| "provider_of (Imagen b) = ImagenClient"

section \<open>Well-formed requests (\<^verbatim>\<open>GenerationSchema\<close> of \<^verbatim>\<open>app/api/generate/route.ts\<close>)\<close>

text \<open>
  The route handler passes a request on only when it satisfies the schema. This is the
  part of the schema that constrains the enumerations and the image count; its bounds on
  the three numbers play no role in what follows.
\<close>

definition wellFormed :: "'n GenerationRequest \<Rightarrow> bool" where
  "wellFormed request =
     (buildingType request \<in> set BuildingType \<and>
      landShape request \<in> set LandShape \<and>
      style request \<in> set ArchitecturalStyle \<and>
      wall (materials request) \<in> set WallMaterial \<and>
      roof (materials request) \<in> set RoofType \<and>
      timeOfDay (environment request) \<in> set TimeOfDay \<and>
      season (environment request) \<in> set Season \<and>
      angle (camera request) \<in> set CameraAngle \<and>
      count (options request) \<in> set [1, 4] \<and>
      resolution (options request) \<in> set Resolution \<and>
      model (options request) \<in> set AIModel)"

section \<open>Concrete requests and worlds\<close>

text \<open>The example scenario: a two-storey Scandinavian house of 120 square metres.\<close>

definition example_request :: "nat GenerationRequest" where
  "example_request = \<lparr>
     buildingType = ''house'', floors = 2, totalArea = 120, landArea = 200,
     landShape = ''rectangle'', style = ''scandinavian'',
     materials = \<lparr>wall = ''wood'', roof = ''gable''\<rparr>,
     colors = \<lparr>primary = ''#F5F5F0'', secondary = ''#5C4033'', accent = ''#E07B39''\<rparr>,
     environment = \<lparr>timeOfDay = ''morning'', season = ''spring''\<rparr>,
     camera = \<lparr>angle = ''front''\<rparr>,
     options = \<lparr>count = 1, resolution = ''hd'', model = ''auto''\<rparr>\<rparr>"

text \<open>The same house with a wall material and with a style outside their enumerations.\<close>

definition brick_request :: "nat GenerationRequest" where
  "brick_request = example_request\<lparr>materials := \<lparr>wall = ''brick'', roof = ''gable''\<rparr>\<rparr>"


definition with_resolution :: "string \<Rightarrow> 'n GenerationRequest \<Rightarrow> 'n GenerationRequest" where
  "with_resolution t request = request\<lparr>options := (options request)\<lparr>resolution := t\<rparr>\<rparr>"

definition with_model :: "string \<Rightarrow> 'n GenerationRequest \<Rightarrow> 'n GenerationRequest" where
  "with_model m request = request\<lparr>options := (options request)\<lparr>model := m\<rparr>\<rparr>"

text \<open>A world in which every provider answers with one image and the token is granted.\<close>

definition answering_world :: "Env \<Rightarrow> World" where
  "answering_world e = \<lparr>
     env = e, Date_now_start = 1000, Date_now_end = 4500, Math_random = 424242,
     google_auth = Some (Some ''ya29.token''),
     flux_api = (\<lambda>b. Json [\<lparr>fal_url = ''https://fal.media/flux.jpg'',
                              fal_width = 1536, fal_height = 1024\<rparr>]),
     nano_banana_api = (\<lambda>b. Json [\<lparr>nano_url = ''https://fal.media/nano.jpg'',
                                     nano_width = None, nano_height = None\<rparr>]),
     imagen_api = (\<lambda>b. Json [\<lparr>bytesBase64Encoded = ''iVBORw0KGgo='',
                                mimeType = ''image/png''\<rparr>])\<rparr>"

text \<open>A world in which every provider answers with status 503.\<close>

definition failing_world :: "Env \<Rightarrow> World" where
  "failing_world e = \<lparr>
     env = e, Date_now_start = 1000, Date_now_end = 4500, Math_random = 424242,
     google_auth = Some (Some ''ya29.token''),
     flux_api = (\<lambda>b. NotOk 503 ''Service Unavailable'' ''busy''),
     nano_banana_api = (\<lambda>b. NotOk 503 ''Service Unavailable'' ''busy''),
     imagen_api = (\<lambda>b. NotOk 503 ''Service Unavailable'' ''busy'')\<rparr>"

text \<open>
  A world in which the Nano Banana provider answers with one image and gives its size,
  800 by 600; the other providers answer as in the first world.
\<close>

definition sized_world :: "Env \<Rightarrow> World" where
  "sized_world e = \<lparr>
     env = e, Date_now_start = 1000, Date_now_end = 4500, Math_random = 424242,
     google_auth = Some (Some ''ya29.token''),
     flux_api = (\<lambda>b. Json [\<lparr>fal_url = ''https://fal.media/flux.jpg'',
                              fal_width = 1536, fal_height = 1024\<rparr>]),
     nano_banana_api = (\<lambda>b. Json [\<lparr>nano_url = ''https://fal.media/nano.jpg'',
                                     nano_width = Some 800, nano_height = Some 600\<rparr>]),
     imagen_api = (\<lambda>b. Json [\<lparr>bytesBase64Encoded = ''iVBORw0KGgo='',
                                mimeType = ''image/png''\<rparr>])\<rparr>"

definition env_nothing :: Env where
  "env_nothing = \<lparr>FAL_KEY = None, GOOGLE_CLOUD_PROJECT_ID = None,
                   GOOGLE_APPLICATION_CREDENTIALS = None\<rparr>"

definition env_fal :: Env where
  "env_fal = \<lparr>FAL_KEY = Some ''fal-key'', GOOGLE_CLOUD_PROJECT_ID = None,
               GOOGLE_APPLICATION_CREDENTIALS = None\<rparr>"

definition env_google :: Env where
  "env_google = \<lparr>FAL_KEY = None, GOOGLE_CLOUD_PROJECT_ID = Some ''render-ai'',
                  GOOGLE_APPLICATION_CREDENTIALS = Some ''/secrets/sa.json''\<rparr>"

definition env_all :: Env where
  "env_all = \<lparr>FAL_KEY = Some ''fal-key'', GOOGLE_CLOUD_PROJECT_ID = Some ''render-ai'',
               GOOGLE_APPLICATION_CREDENTIALS = Some ''/secrets/sa.json''\<rparr>"

section \<open>Trimming a template literal\<close>

lemma trim_line:
  assumes "\<not> is_whitespace c" "\<not> is_whitespace d"
  shows "trim (CHR 0x0A # c # s @ [d, CHR 0x0A]) = c # s @ [d]"
proof -
  have ws: "is_whitespace (CHR 0x0A)" by (simp add: is_whitespace_def)
  have "trimStart (CHR 0x0A # c # s @ [d, CHR 0x0A]) = c # s @ [d, CHR 0x0A]"
    using assms(1) ws by (simp add: trimStart_def)
  moreover have "trimEnd ((c # s @ [d]) @ [CHR 0x0A]) = trimEnd ((c # s) @ [d])"
    using ws by (simp add: trimEnd_def)
  moreover have "trimEnd ((c # s) @ [d]) = (c # s) @ [d]"
    using assms(2) by (simp add: trimEnd_def)
  ultimately show ?thesis by (simp add: trim_def)
qed

lemma trim_template:
  assumes "\<not> is_whitespace c" "\<not> is_whitespace d"
  shows "trim (''\<newline>'' @ concat ((c # first) # middle @ [last_line @ [d]]) @ ''\<newline>'')
         = concat ((c # first) # middle @ [last_line @ [d]])"
proof -
  have A: "''\<newline>'' @ concat ((c # first) # middle @ [last_line @ [d]]) @ ''\<newline>''
        = CHR 0x0A # c # (first @ concat middle @ last_line) @ [d, CHR 0x0A]"
    by simp
  have B: "concat ((c # first) # middle @ [last_line @ [d]])
        = c # (first @ concat middle @ last_line) @ [d]"
    by simp
  show ?thesis
    by (subst A, subst B, rule trim_line [OF assms])
qed

lemma prompt_text_shape:
  "prompt_text styleName styleKeywords toString request =
     (CHR ''P'' # ''hotorealistic architectural exterior rendering of a '')
       # butlast (tl (prompt_text styleName styleKeywords toString request))
       @ [''- Clean, modern presentatio'' @ [CHR ''n'']]"
  by (simp add: prompt_text_def)

lemma trim_prompt_text:
  "trim (''\<newline>'' @ concat (prompt_text styleName styleKeywords toString request) @ ''\<newline>'')
   = concat (prompt_text styleName styleKeywords toString request)"
  by (subst (1 2) prompt_text_shape, rule trim_template) (simp_all add: is_whitespace_def)

lemma buildPrompt_eq:
  "buildPrompt toString request =
     concat (prompt_text
       (styleName_of (find (\<lambda>s. preset_id s = style request) STYLE_PRESETS))
       (styleKeywords_of (find (\<lambda>s. preset_id s = style request) STYLE_PRESETS))
       toString request)"
  by (simp add: buildPrompt_def Let_def trim_prompt_text del: append.simps)

lemma buildNegativePrompt_eq: "buildNegativePrompt = concat negative_text"
proof -
  have shape: "negative_text =
      (CHR ''b'' # ''lurry, low quality, distorted, cartoon, anime, illustration, \<newline>'')
      # butlast (tl negative_text)
      @ [''disproportionate, impossible architecture, physically impossibl'' @ [CHR ''e'']]"
    by (simp add: negative_text_def)
  show ?thesis
    unfolding buildNegativePrompt_def
    by (subst (1 2) shape, rule trim_template) (simp_all add: is_whitespace_def)
qed

section \<open>Pieces of a concatenation\<close>

lemma sublist_concat_mem: "x \<in> set xs \<Longrightarrow> sublist x (concat xs)"
  by (induction xs) (auto simp: sublist_append)

lemma sublist_concat_run: "sublist (concat ys) (concat (pre @ ys @ post))"
  by simp

lemma sublist_trans: "sublist xs ys \<Longrightarrow> sublist ys zs \<Longrightarrow> sublist xs zs"
  by (rule sublist_order.order_trans)

lemma sublist_join: "k \<in> set ks \<Longrightarrow> sublist k (join sep ks)"
proof (induction sep ks rule: join.induct)
  case (3 sep x y ys)
  then show ?case by (auto simp: sublist_append)
qed simp_all

lemma decimal_2: "decimal 2 = ''2''"
  by (simp add: decimal.simps)

lemma decimal_120: "decimal 120 = ''120''"
  by (simp add: decimal.simps)

section \<open>Looking up a style\<close>

lemma preset_id_simps:
  "preset_id preset_modern_minimal = ''modern_minimal''"
  "preset_id preset_japanese_modern = ''japanese_modern''"
  "preset_id preset_scandinavian = ''scandinavian''"
  "preset_id preset_industrial = ''industrial''"
  "preset_id preset_luxury = ''luxury''"
  "preset_id preset_mediterranean = ''mediterranean''"
  "preset_id preset_american = ''american''"
  by (simp_all add: preset_modern_minimal_def preset_japanese_modern_def
      preset_scandinavian_def preset_industrial_def preset_luxury_def
      preset_mediterranean_def preset_american_def)

lemma preset_name_simps:
  "preset_name preset_modern_minimal = ''Modern Minimal''"
  "preset_name preset_japanese_modern = ''Japanese Modern''"
  "preset_name preset_scandinavian = ''Scandinavian''"
  "preset_name preset_industrial = ''Industrial''"
  "preset_name preset_luxury = ''Luxury''"
  "preset_name preset_mediterranean = ''Mediterranean''"
  "preset_name preset_american = ''American''"
  by (simp_all add: preset_modern_minimal_def preset_japanese_modern_def
      preset_scandinavian_def preset_industrial_def preset_luxury_def
      preset_mediterranean_def preset_american_def)

lemma preset_cases:
  assumes "p \<in> set STYLE_PRESETS"
  obtains "p = preset_modern_minimal" | "p = preset_japanese_modern"
    | "p = preset_scandinavian" | "p = preset_industrial" | "p = preset_luxury"
    | "p = preset_mediterranean" | "p = preset_american"
  using assms unfolding STYLE_PRESETS_def by (simp only: set_simps insert_iff empty_iff) blast

lemma preset_ids: "map preset_id STYLE_PRESETS = ArchitecturalStyle"
  by (simp add: STYLE_PRESETS_def ArchitecturalStyle_def preset_id_simps)

lemma find_preset:
  assumes "p \<in> set STYLE_PRESETS"
  shows "find (\<lambda>s. preset_id s = preset_id p) STYLE_PRESETS = Some p"
  using assms by (rule preset_cases) (simp_all add: STYLE_PRESETS_def preset_id_simps)

lemma preset_name_nonempty: "p \<in> set STYLE_PRESETS \<Longrightarrow> preset_name p \<noteq> []"
  by (erule preset_cases) (simp_all add: preset_name_simps)

lemma find_unknown_style:
  assumes "style request \<notin> set (map preset_id STYLE_PRESETS)"
  shows "find (\<lambda>s. preset_id s = style request) STYLE_PRESETS = None"
  using assms by (force simp: find_None_iff)

lemma styleKeywords_of_Some: "styleKeywords_of (Some p) = join '', '' (preset_keywords p)"
  by (simp add: styleKeywords_of_def)

section \<open>What the prompt contains\<close>

lemma piece_in_prompt:
  assumes "x \<in> set (prompt_text
       (styleName_of (find (\<lambda>s. preset_id s = style request) STYLE_PRESETS))
       (styleKeywords_of (find (\<lambda>s. preset_id s = style request) STYLE_PRESETS))
       toString request)"
  shows "sublist x (buildPrompt toString request)"
  unfolding buildPrompt_eq using assms by (rule sublist_concat_mem)

lemma run_in_prompt:
  assumes "prompt_text
       (styleName_of (find (\<lambda>s. preset_id s = style request) STYLE_PRESETS))
       (styleKeywords_of (find (\<lambda>s. preset_id s = style request) STYLE_PRESETS))
       toString request = pre @ ys @ post"
  shows "sublist (concat ys) (buildPrompt toString request)"
  unfolding buildPrompt_eq assms by (rule sublist_concat_run)

lemma floors_in_prompt: "sublist (toString (floors request)) (buildPrompt toString request)"
  by (rule piece_in_prompt) (simp add: prompt_text_def)

lemma totalArea_in_prompt: "sublist (toString (totalArea request)) (buildPrompt toString request)"
  by (rule piece_in_prompt) (simp add: prompt_text_def)

lemma primary_in_prompt: "sublist (primary (colors request)) (buildPrompt toString request)"
  by (rule piece_in_prompt) (simp add: prompt_text_def)

lemma secondary_in_prompt: "sublist (secondary (colors request)) (buildPrompt toString request)"
  by (rule piece_in_prompt) (simp add: prompt_text_def)

lemma accent_in_prompt: "sublist (accent (colors request)) (buildPrompt toString request)"
  by (rule piece_in_prompt) (simp add: prompt_text_def)

lemma keywords_in_prompt:
  assumes "p \<in> set STYLE_PRESETS" "style request = preset_id p"
  shows "sublist (join '', '' (preset_keywords p)) (buildPrompt toString request)"
proof -
  have "find (\<lambda>s. preset_id s = style request) STYLE_PRESETS = Some p"
    using find_preset [OF assms(1)] assms(2) by simp
  then show ?thesis
    by (intro piece_in_prompt) (simp add: prompt_text_def styleKeywords_of_Some)
qed

text \<open>The labelled lines of the prompt.\<close>

lemma line_in_prompt:
  assumes "prompt_text
       (styleName_of (find (\<lambda>s. preset_id s = style request) STYLE_PRESETS))
       (styleKeywords_of (find (\<lambda>s. preset_id s = style request) STYLE_PRESETS))
       toString request = pre @ [a, b, c] @ post"
  shows "sublist (a @ b @ c) (buildPrompt toString request)"
proof -
  have "sublist (concat [a, b, c]) (buildPrompt toString request)"
    using assms by (rule run_in_prompt)
  then show ?thesis by simp
qed

lemma floors_line:
  "sublist (''- Number of floors: '' @ toString (floors request) @ ''\<newline>'')
     (buildPrompt toString request)"
  by (rule line_in_prompt [where pre = "take 7 (prompt_text s k toString request)"
        and post = "drop 10 (prompt_text s k toString request)" for s k])
     (simp add: prompt_text_def)

lemma totalArea_line:
  "sublist (''- Total floor area: approximately '' @ toString (totalArea request) @ '' square meters\<newline>'')
     (buildPrompt toString request)"
  by (rule line_in_prompt [where pre = "take 10 (prompt_text s k toString request)"
        and post = "drop 13 (prompt_text s k toString request)" for s k])
     (simp add: prompt_text_def)

lemma primary_line:
  "sublist (''- Primary color: '' @ primary (colors request) @ ''\<newline>'')
     (buildPrompt toString request)"
  by (rule line_in_prompt [where pre = "take 35 (prompt_text s k toString request)"
        and post = "drop 38 (prompt_text s k toString request)" for s k])
     (simp add: prompt_text_def)

lemma secondary_line:
  "sublist (''- Secondary color: '' @ secondary (colors request) @ ''\<newline>'')
     (buildPrompt toString request)"
  by (rule line_in_prompt [where pre = "take 38 (prompt_text s k toString request)"
        and post = "drop 41 (prompt_text s k toString request)" for s k])
     (simp add: prompt_text_def)

lemma accent_line:
  "sublist (''- Accent color: '' @ accent (colors request) @ ''\<newline>'')
     (buildPrompt toString request)"
  by (rule line_in_prompt [where pre = "take 41 (prompt_text s k toString request)"
        and post = "drop 44 (prompt_text s k toString request)" for s k])
     (simp add: prompt_text_def)

lemma keywords_line:
  assumes "p \<in> set STYLE_PRESETS" "style request = preset_id p"
  shows "sublist (''- Design characteristics: '' @ join '', '' (preset_keywords p) @ ''\<newline>'')
     (buildPrompt toString request)"
proof -
  have "find (\<lambda>s. preset_id s = style request) STYLE_PRESETS = Some p"
    using find_preset [OF assms(1)] assms(2) by simp
  then show ?thesis
    by (intro line_in_prompt [where pre = "take 24 (prompt_text s k toString request)"
        and post = "drop 27 (prompt_text s k toString request)" for s k])
       (simp add: prompt_text_def styleKeywords_of_Some)
qed

text \<open>
  C6. For every request, the prompt contains the printed floor count, the printed total
  floor area and the three colour strings as they were given, each on its labelled line;
  the presets are those of the seven architectural styles, and for the preset of the
  request's style the prompt contains its keyword list joined by commas, hence each of
  its keywords.
\<close>

theorem buildPrompt_contains_request_values:
  "sublist (toString (floors request)) (buildPrompt toString request) \<and>
   sublist (toString (totalArea request)) (buildPrompt toString request) \<and>
   sublist (primary (colors request)) (buildPrompt toString request) \<and>
   sublist (secondary (colors request)) (buildPrompt toString request) \<and>
   sublist (accent (colors request)) (buildPrompt toString request) \<and>
   sublist (''- Number of floors: '' @ toString (floors request) @ ''\<newline>'')
     (buildPrompt toString request) \<and>
   sublist (''- Total floor area: approximately '' @ toString (totalArea request)
            @ '' square meters\<newline>'') (buildPrompt toString request) \<and>
   sublist (''- Primary color: '' @ primary (colors request) @ ''\<newline>'')
     (buildPrompt toString request) \<and>
   sublist (''- Secondary color: '' @ secondary (colors request) @ ''\<newline>'')
     (buildPrompt toString request) \<and>
   sublist (''- Accent color: '' @ accent (colors request) @ ''\<newline>'')
     (buildPrompt toString request) \<and>
   map preset_id STYLE_PRESETS = ArchitecturalStyle \<and>
   (\<forall>p \<in> set STYLE_PRESETS. style request = preset_id p \<longrightarrow>
      sublist (join '', '' (preset_keywords p)) (buildPrompt toString request) \<and>
      sublist (''- Design characteristics: '' @ join '', '' (preset_keywords p) @ ''\<newline>'')
        (buildPrompt toString request) \<and>
      (\<forall>k \<in> set (preset_keywords p). sublist k (buildPrompt toString request)))"
proof -
  have kw: "sublist k (buildPrompt toString request)"
    if "p \<in> set STYLE_PRESETS" "style request = preset_id p" "k \<in> set (preset_keywords p)"
    for p k
    using sublist_join [OF that(3), of "'', ''"] keywords_in_prompt [OF that(1,2), of toString]
    by (rule sublist_trans)
  show ?thesis
  proof (intro conjI ballI impI)
    show "map preset_id STYLE_PRESETS = ArchitecturalStyle" by (rule preset_ids)
  qed (rule floors_in_prompt totalArea_in_prompt primary_in_prompt secondary_in_prompt
      accent_in_prompt floors_line totalArea_line primary_line secondary_line accent_line
      | erule (1) keywords_in_prompt keywords_line | erule (2) kw)+
qed

theorem buildPrompt_contains_request_values_witness:
  "preset_scandinavian \<in> set STYLE_PRESETS \<and>
   style example_request = preset_id preset_scandinavian \<and>
   sublist ''2'' (buildPrompt decimal example_request) \<and>
   sublist ''120'' (buildPrompt decimal example_request) \<and>
   sublist ''#F5F5F0'' (buildPrompt decimal example_request) \<and>
   sublist (''- Number of floors: '' @ ''2'' @ ''\<newline>'') (buildPrompt decimal example_request) \<and>
   sublist (join '', '' (preset_keywords preset_scandinavian)) (buildPrompt decimal example_request)"
proof -
  note T = buildPrompt_contains_request_values [of decimal example_request]
  have p: "preset_scandinavian \<in> set STYLE_PRESETS"
    by (simp add: STYLE_PRESETS_def)
  have s: "style example_request = preset_id preset_scandinavian"
    by (simp add: example_request_def preset_id_simps)
  have v: "floors example_request = 2" "totalArea example_request = 120"
    "primary (colors example_request) = ''#F5F5F0''"
    by (simp_all add: example_request_def)
  from T have "sublist (decimal (floors example_request)) (buildPrompt decimal example_request)"
    by (elim conjE)
  then have a: "sublist ''2'' (buildPrompt decimal example_request)"
    by (simp only: v decimal_2)
  from T have "sublist (decimal (totalArea example_request)) (buildPrompt decimal example_request)"
    by (elim conjE)
  then have b: "sublist ''120'' (buildPrompt decimal example_request)"
    by (simp only: v decimal_120)
  from T have "sublist (primary (colors example_request)) (buildPrompt decimal example_request)"
    by (elim conjE)
  then have c: "sublist ''#F5F5F0'' (buildPrompt decimal example_request)"
    by (simp only: v)
  from T have "sublist (''- Number of floors: '' @ decimal (floors example_request) @ ''\<newline>'')
      (buildPrompt decimal example_request)"
    by (elim conjE)
  then have d: "sublist (''- Number of floors: '' @ ''2'' @ ''\<newline>'') (buildPrompt decimal example_request)"
    by (simp only: v decimal_2)
  from T have "\<forall>p \<in> set STYLE_PRESETS. style example_request = preset_id p \<longrightarrow>
      sublist (join '', '' (preset_keywords p)) (buildPrompt decimal example_request) \<and>
      sublist (''- Design characteristics: '' @ join '', '' (preset_keywords p) @ ''\<newline>'')
        (buildPrompt decimal example_request) \<and>
      (\<forall>k \<in> set (preset_keywords p). sublist k (buildPrompt decimal example_request))"
    by (elim conjE)
  from this [rule_format, OF p s]
  have e: "sublist (join '', '' (preset_keywords preset_scandinavian)) (buildPrompt decimal example_request)"
    by (rule conjunct1)
  from p s a b c d e show ?thesis by (intro conjI)
qed

section \<open>A style outside the presets\<close>

lemma buildPrompt_unknown_style_eq:
  assumes "style request \<notin> set (map preset_id STYLE_PRESETS)"
  shows "buildPrompt toString request = concat (prompt_text ''Modern'' [] toString request)"
  unfolding buildPrompt_eq find_unknown_style [OF assms]
  by (simp only: styleName_of_def styleKeywords_of_def option.case)





section \<open>The enumeration tables\<close>

lemma table_keys:
  "map fst buildingTypeMap = BuildingType"
  "map fst timeMap = TimeOfDay"
  "map fst seasonMap = Season"
  "map fst cameraMap = CameraAngle"
  "map fst MATERIAL_NAMES = WallMaterial"
  "map fst ROOF_NAMES = RoofType"
  by (simp_all add: buildingTypeMap_def BuildingType_def timeMap_def TimeOfDay_def
      seasonMap_def Season_def cameraMap_def CameraAngle_def MATERIAL_NAMES_def
      WallMaterial_def ROOF_NAMES_def RoofType_def)

lemma own_property:
  assumes "key \<in> set (map fst table)"
  shows "\<exists>v. get_property table key = Own v"
proof -
  from assms obtain v where "map_of table key = Some v"
    by (metis map_of_eq_None_iff not_Some_eq set_map)
  then show ?thesis by (simp add: get_property_def)
qed

lemma undefined_property:
  assumes "key \<notin> set (map fst table)" "key \<notin> set Object_prototype"
  shows "get_property table key = Undefined"
proof -
  from assms(1) have "map_of table key = None"
    by (simp add: map_of_eq_None_iff)
  with assms(2) show ?thesis by (simp add: get_property_def)
qed

lemma interpolate_undefined:
  assumes "key \<notin> set (map fst table)" "key \<notin> set Object_prototype"
  shows "interpolate (get_property table key) = ''undefined''"
  by (simp add: undefined_property [OF assms] interpolate_def)

lemma buildingType_line:
  "sublist ('' '' @ interpolate (get_property buildingTypeMap (buildingType request)) @ ''.\<newline>'')
     (buildPrompt toString request)"
  by (rule line_in_prompt [where pre = "take 2 (prompt_text s k toString request)"
        and post = "drop 5 (prompt_text s k toString request)" for s k])
     (simp add: prompt_text_def)

lemma wall_line:
  "sublist (''- Exterior wall: '' @ interpolate (get_property MATERIAL_NAMES (wall (materials request)))
            @ ''\<newline>'') (buildPrompt toString request)"
  by (rule line_in_prompt [where pre = "take 29 (prompt_text s k toString request)"
        and post = "drop 32 (prompt_text s k toString request)" for s k])
     (simp add: prompt_text_def)

lemma roof_line:
  "sublist (''- Roof type: '' @ interpolate (get_property ROOF_NAMES (roof (materials request)))
            @ ''\<newline>'') (buildPrompt toString request)"
  by (rule line_in_prompt [where pre = "take 32 (prompt_text s k toString request)"
        and post = "drop 35 (prompt_text s k toString request)" for s k])
     (simp add: prompt_text_def)

lemma timeOfDay_line:
  "sublist (''- Time of day: '' @ interpolate (get_property timeMap (timeOfDay (environment request)))
            @ ''\<newline>'') (buildPrompt toString request)"
  by (rule line_in_prompt [where pre = "take 46 (prompt_text s k toString request)"
        and post = "drop 49 (prompt_text s k toString request)" for s k])
     (simp add: prompt_text_def)

lemma season_line:
  "sublist (''- Season: '' @ interpolate (get_property seasonMap (season (environment request)))
            @ ''\<newline>'') (buildPrompt toString request)"
  by (rule line_in_prompt [where pre = "take 49 (prompt_text s k toString request)"
        and post = "drop 52 (prompt_text s k toString request)" for s k])
     (simp add: prompt_text_def)

lemma angle_line:
  "sublist (''- View angle: '' @ interpolate (get_property cameraMap (angle (camera request)))
            @ ''\<newline>'') (buildPrompt toString request)"
  by (rule line_in_prompt [where pre = "take 55 (prompt_text s k toString request)"
        and post = "drop 58 (prompt_text s k toString request)" for s k])
     (simp add: prompt_text_def)

lemma found_preset:
  assumes "style request \<in> set ArchitecturalStyle"
  shows "\<exists>p. find (\<lambda>s. preset_id s = style request) STYLE_PRESETS = Some p"
proof -
  from assms obtain p where "p \<in> set STYLE_PRESETS" "preset_id p = style request"
    unfolding preset_ids [symmetric] by auto
  with find_preset [of p] show ?thesis by auto
qed

lemma buildSummary_unknown_buildingType:
  assumes "buildingType request \<notin> set BuildingType"
  shows "buildSummary toString request = buildSummary toString (request\<lparr>buildingType := ''shop''\<rparr>)"
  using assms by (simp add: buildSummary_def BuildingType_def)

section \<open>Values outside the other enumerations\<close>

text \<open>
  C7, as amended. The three builder functions have no failing branch in the code, and none
  in the model. For a well-formed request every table read finds an own entry and a
  preset is found for the style. For a value outside an enumeration nothing fails, but a
  fallback phrase exists for the style only (\<open>Modern\<close>, with no keywords), and in
  \<^verbatim>\<open>buildSummary\<close> for the building type (the noun of \<open>shop\<close>); a building type,
  wall material, roof type, time of day, season or camera angle that is neither in its
  table nor a member name of \<^verbatim>\<open>Object.prototype\<close> is printed in the prompt as the text
  \<open>undefined\<close>.
\<close>

theorem prompt_builder_lookups:
  "(wellFormed request \<longrightarrow>
      (\<exists>v. get_property buildingTypeMap (buildingType request) = Own v) \<and>
      (\<exists>v. get_property MATERIAL_NAMES (wall (materials request)) = Own v) \<and>
      (\<exists>v. get_property ROOF_NAMES (roof (materials request)) = Own v) \<and>
      (\<exists>v. get_property timeMap (timeOfDay (environment request)) = Own v) \<and>
      (\<exists>v. get_property seasonMap (season (environment request)) = Own v) \<and>
      (\<exists>v. get_property cameraMap (angle (camera request)) = Own v) \<and>
      (\<exists>p. find (\<lambda>s. preset_id s = style request) STYLE_PRESETS = Some p)) \<and>
   (style request \<notin> set ArchitecturalStyle \<longrightarrow>
      buildPrompt toString request = concat (prompt_text ''Modern'' [] toString request)) \<and>
   (buildingType request \<notin> set BuildingType \<longrightarrow>
      buildSummary toString request = buildSummary toString (request\<lparr>buildingType := ''shop''\<rparr>)) \<and>
   (buildingType request \<notin> set BuildingType \<and> buildingType request \<notin> set Object_prototype \<longrightarrow>
      sublist '' undefined.\<newline>'' (buildPrompt toString request)) \<and>
   (wall (materials request) \<notin> set WallMaterial \<and> wall (materials request) \<notin> set Object_prototype \<longrightarrow>
      sublist ''- Exterior wall: undefined\<newline>'' (buildPrompt toString request)) \<and>
   (roof (materials request) \<notin> set RoofType \<and> roof (materials request) \<notin> set Object_prototype \<longrightarrow>
      sublist ''- Roof type: undefined\<newline>'' (buildPrompt toString request)) \<and>
   (timeOfDay (environment request) \<notin> set TimeOfDay \<and>
    timeOfDay (environment request) \<notin> set Object_prototype \<longrightarrow>
      sublist ''- Time of day: undefined\<newline>'' (buildPrompt toString request)) \<and>
   (season (environment request) \<notin> set Season \<and> season (environment request) \<notin> set Object_prototype \<longrightarrow>
      sublist ''- Season: undefined\<newline>'' (buildPrompt toString request)) \<and>
   (angle (camera request) \<notin> set CameraAngle \<and> angle (camera request) \<notin> set Object_prototype \<longrightarrow>
      sublist ''- View angle: undefined\<newline>'' (buildPrompt toString request))"
proof (intro conjI impI; (elim conjE)?)
  assume wf: "wellFormed request"
  show "\<exists>v. get_property buildingTypeMap (buildingType request) = Own v"
    using wf by (intro own_property) (simp add: wellFormed_def table_keys)
  show "\<exists>v. get_property MATERIAL_NAMES (wall (materials request)) = Own v"
    using wf by (intro own_property) (simp add: wellFormed_def table_keys)
  show "\<exists>v. get_property ROOF_NAMES (roof (materials request)) = Own v"
    using wf by (intro own_property) (simp add: wellFormed_def table_keys)
  show "\<exists>v. get_property timeMap (timeOfDay (environment request)) = Own v"
    using wf by (intro own_property) (simp add: wellFormed_def table_keys)
  show "\<exists>v. get_property seasonMap (season (environment request)) = Own v"
    using wf by (intro own_property) (simp add: wellFormed_def table_keys)
  show "\<exists>v. get_property cameraMap (angle (camera request)) = Own v"
    using wf by (intro own_property) (simp add: wellFormed_def table_keys)
  show "\<exists>p. find (\<lambda>s. preset_id s = style request) STYLE_PRESETS = Some p"
    using wf by (intro found_preset) (simp add: wellFormed_def)
next
  assume "style request \<notin> set ArchitecturalStyle"
  then show "buildPrompt toString request = concat (prompt_text ''Modern'' [] toString request)"
    by (intro buildPrompt_unknown_style_eq) (simp add: preset_ids)
next
  assume "buildingType request \<notin> set BuildingType"
  then show "buildSummary toString request
             = buildSummary toString (request\<lparr>buildingType := ''shop''\<rparr>)"
    by (rule buildSummary_unknown_buildingType)
next
  assume "buildingType request \<notin> set BuildingType" "buildingType request \<notin> set Object_prototype"
  then have "interpolate (get_property buildingTypeMap (buildingType request)) = ''undefined''"
    by (intro interpolate_undefined) (simp_all add: table_keys)
  with buildingType_line [of request toString]
  show "sublist '' undefined.\<newline>'' (buildPrompt toString request)" by simp
next
  assume "wall (materials request) \<notin> set WallMaterial"
    "wall (materials request) \<notin> set Object_prototype"
  then have "interpolate (get_property MATERIAL_NAMES (wall (materials request))) = ''undefined''"
    by (intro interpolate_undefined) (simp_all add: table_keys)
  with wall_line [of request toString]
  show "sublist ''- Exterior wall: undefined\<newline>'' (buildPrompt toString request)" by simp
next
  assume "roof (materials request) \<notin> set RoofType"
    "roof (materials request) \<notin> set Object_prototype"
  then have "interpolate (get_property ROOF_NAMES (roof (materials request))) = ''undefined''"
    by (intro interpolate_undefined) (simp_all add: table_keys)
  with roof_line [of request toString]
  show "sublist ''- Roof type: undefined\<newline>'' (buildPrompt toString request)" by simp
next
  assume "timeOfDay (environment request) \<notin> set TimeOfDay"
    "timeOfDay (environment request) \<notin> set Object_prototype"
  then have "interpolate (get_property timeMap (timeOfDay (environment request))) = ''undefined''"
    by (intro interpolate_undefined) (simp_all add: table_keys)
  with timeOfDay_line [of request toString]
  show "sublist ''- Time of day: undefined\<newline>'' (buildPrompt toString request)" by simp
next
  assume "season (environment request) \<notin> set Season"
    "season (environment request) \<notin> set Object_prototype"
  then have "interpolate (get_property seasonMap (season (environment request))) = ''undefined''"
    by (intro interpolate_undefined) (simp_all add: table_keys)
  with season_line [of request toString]
  show "sublist ''- Season: undefined\<newline>'' (buildPrompt toString request)" by simp
next
  assume "angle (camera request) \<notin> set CameraAngle"
    "angle (camera request) \<notin> set Object_prototype"
  then have "interpolate (get_property cameraMap (angle (camera request))) = ''undefined''"
    by (intro interpolate_undefined) (simp_all add: table_keys)
  with angle_line [of request toString]
  show "sublist ''- View angle: undefined\<newline>'' (buildPrompt toString request)" by simp
qed

lemma wellFormed_example: "wellFormed example_request"
  by (simp add: wellFormed_def example_request_def BuildingType_def LandShape_def
      ArchitecturalStyle_def WallMaterial_def RoofType_def TimeOfDay_def Season_def
      CameraAngle_def Resolution_def AIModel_def)

lemma brick_unknown:
  "wall (materials brick_request) \<notin> set WallMaterial"
  "wall (materials brick_request) \<notin> set Object_prototype"
  by (simp_all add: brick_request_def WallMaterial_def Object_prototype_def)

theorem prompt_builder_lookups_witness:
  "wellFormed example_request \<and>
   find (\<lambda>s. preset_id s = style example_request) STYLE_PRESETS \<noteq> None \<and>
   wall (materials brick_request) \<notin> set WallMaterial \<and>
   wall (materials brick_request) \<notin> set Object_prototype \<and>
   sublist ''- Exterior wall: undefined\<newline>'' (buildPrompt decimal brick_request)"
proof -
  from prompt_builder_lookups [of example_request decimal, THEN conjunct1, THEN mp,
      OF wellFormed_example]
  have "\<exists>p. find (\<lambda>s. preset_id s = style example_request) STYLE_PRESETS = Some p"
    by (elim conjE)
  then have a: "find (\<lambda>s. preset_id s = style example_request) STYLE_PRESETS \<noteq> None"
    by (elim exE) simp
  from prompt_builder_lookups [of brick_request decimal]
  have "wall (materials brick_request) \<notin> set WallMaterial \<and>
        wall (materials brick_request) \<notin> set Object_prototype \<longrightarrow>
        sublist ''- Exterior wall: undefined\<newline>'' (buildPrompt decimal brick_request)"
    by (elim conjE)
  then have b: "sublist ''- Exterior wall: undefined\<newline>'' (buildPrompt decimal brick_request)"
    by (rule mp) (intro conjI brick_unknown)
  from wellFormed_example a brick_unknown b show ?thesis by (intro conjI)
qed

text \<open>
  The claim as it was written promises a fallback phrase for every unknown value. For the
  wall material \<open>brick\<close> the table read gives \<^verbatim>\<open>undefined\<close>, and that word is what
  the prompt carries.
\<close>

theorem unknown_wall_material_counterexample:
  "wall (materials brick_request) \<notin> set WallMaterial \<and>
   get_property MATERIAL_NAMES (wall (materials brick_request)) = Undefined \<and>
   sublist ''- Exterior wall: undefined\<newline>'' (buildPrompt decimal brick_request)"
proof -
  have u: "get_property MATERIAL_NAMES (wall (materials brick_request)) = Undefined"
    by (intro undefined_property) (simp_all add: table_keys brick_unknown)
  then have "interpolate (get_property MATERIAL_NAMES (wall (materials brick_request))) = ''undefined''"
    by (simp add: interpolate_def)
  with wall_line [of brick_request decimal]
  have "sublist ''- Exterior wall: undefined\<newline>'' (buildPrompt decimal brick_request)"
    by simp
  with brick_unknown(1) u show ?thesis by (intro conjI)
qed

text \<open>The summary of the example: style name, floor count, noun of \<open>house\<close>, area.\<close>

lemma buildSummary_example:
  "buildSummary decimal example_request =
     nameJa preset_scandinavian
     @ [CHR 0xE3, CHR 0x82, CHR 0xB9, CHR 0xE3, CHR 0x82, CHR 0xBF, CHR 0xE3, CHR 0x82, CHR 0xA4,
        CHR 0xE3, CHR 0x83, CHR 0xAB, CHR 0xE3, CHR 0x81, CHR 0xAE]
     @ ''2''
     @ [CHR 0xE9, CHR 0x9A, CHR 0x8E, CHR 0xE5, CHR 0xBB, CHR 0xBA, CHR 0xE3, CHR 0x81, CHR 0xA6]
     @ [CHR 0xE4, CHR 0xBD, CHR 0x8F, CHR 0xE5, CHR 0xAE, CHR 0x85]
     @ [CHR 0xEF, CHR 0xBC, CHR 0x88, CHR 0xE5, CHR 0xBB, CHR 0xB6, CHR 0xE5, CHR 0xBA, CHR 0x8A]
     @ ''120''
     @ [CHR 0xE3, CHR 0x8E, CHR 0xA1, CHR 0xEF, CHR 0xBC, CHR 0x89]"
proof -
  have p: "preset_scandinavian \<in> set STYLE_PRESETS"
    by (simp add: STYLE_PRESETS_def)
  have "find (\<lambda>s. preset_id s = style example_request) STYLE_PRESETS = Some preset_scandinavian"
    using find_preset [OF p] by (simp add: preset_id_simps example_request_def)
  moreover have "nameJa preset_scandinavian \<noteq> []"
    by (simp add: preset_scandinavian_def)
  moreover have "buildingType example_request = ''house''"
    "floors example_request = 2" "totalArea example_request = 120"
    by (simp_all add: example_request_def)
  ultimately show ?thesis
    by (simp add: buildSummary_def decimal_2 decimal_120)
qed

section \<open>The provider clients, one by one\<close>

lemma flux_unconfigured:
  assumes "\<not> truthy (FAL_KEY (env world))"
  shows "generateWithFlux toString world request
         = ([Invoked FluxClient], Inl (Error ''FAL_KEY is not configured''))"
  using assms by (simp add: generateWithFlux_def truthy_def split: option.splits)

lemma flux_trace:
  "fst (generateWithFlux toString world request) = [Invoked FluxClient] \<or>
   (\<exists>u a b. fst (generateWithFlux toString world request)
              = [Invoked FluxClient, Fetch u a (Flux b)])"
  by (simp add: generateWithFlux_def Let_def split: option.splits response.splits)

lemma flux_success:
  assumes "generateWithFlux toString world request = (trace, Inr out)"
  shows "out_model out = ''flux2'' \<and> prompt out = buildPrompt toString request \<and>
         truthy (FAL_KEY (env world))"
  using assms
  by (auto simp: generateWithFlux_def Let_def truthy_def
      split: option.splits response.splits if_splits)

lemma nano_unconfigured:
  assumes "\<not> truthy (FAL_KEY (env world))"
  shows "generateWithNanoBanana toString world request
         = ([Invoked NanoBananaClient], Inl (Error ''FAL_KEY is not configured''))"
  using assms by (simp add: generateWithNanoBanana_def truthy_def split: option.splits)

lemma nano_trace:
  "fst (generateWithNanoBanana toString world request) = [Invoked NanoBananaClient] \<or>
   (\<exists>u a b. fst (generateWithNanoBanana toString world request)
              = [Invoked NanoBananaClient, Fetch u a (NanoBanana b)])"
  by (simp add: generateWithNanoBanana_def Let_def split: option.splits response.splits)

lemma nano_success:
  assumes "generateWithNanoBanana toString world request = (trace, Inr out)"
  shows "out_model out = ''nano-banana'' \<and> prompt out = buildPrompt toString request \<and>
         truthy (FAL_KEY (env world))"
  using assms
  by (auto simp: generateWithNanoBanana_def Let_def truthy_def
      split: option.splits response.splits if_splits)

lemma getAccessToken_trace:
  "fst (getAccessToken world) = [] \<and> (\<exists>e. snd (getAccessToken world) = Inl e) \<or>
   fst (getAccessToken world) = [AccessTokenRequested]"
  by (simp add: getAccessToken_def split: option.splits)

lemma imagen_trace:
  "fst (generateWithImagen toString world request) = [Invoked ImagenClient] \<or>
   fst (generateWithImagen toString world request) = [Invoked ImagenClient, AccessTokenRequested] \<or>
   (\<exists>u a b. fst (generateWithImagen toString world request)
              = [Invoked ImagenClient, AccessTokenRequested, Fetch u a (Imagen b)])"
proof (cases "getAccessToken world")
  case (Pair asked result)
  with getAccessToken_trace [of world]
  have "asked = [] \<and> (\<exists>e. result = Inl e) \<or> asked = [AccessTokenRequested]"
    by simp
  with Pair show ?thesis
    by (auto simp: generateWithImagen_def Let_def
        split: option.splits response.splits sum.splits)
qed

lemma imagen_success:
  assumes "generateWithImagen toString world request = (trace, Inr out)"
  shows "out_model out = ''imagen4'' \<and> prompt out = buildPrompt toString request \<and>
         truthy (GOOGLE_CLOUD_PROJECT_ID (env world))"
  using assms
  by (auto simp: generateWithImagen_def Let_def truthy_def
      split: option.splits response.splits if_splits sum.splits prod.splits)

text \<open>What a trace of one client holds.\<close>

lemma flux_invoked: "invoked (fst (generateWithFlux toString world request)) = [FluxClient]"
  using flux_trace [of toString world request] by auto

lemma nano_invoked:
  "invoked (fst (generateWithNanoBanana toString world request)) = [NanoBananaClient]"
  using nano_trace [of toString world request] by auto

lemma imagen_invoked: "invoked (fst (generateWithImagen toString world request)) = [ImagenClient]"
  using imagen_trace [of toString world request] by auto

lemma flux_fetched:
  "fetched (fst (generateWithFlux toString world request)) = [] \<or>
   (\<exists>b. fetched (fst (generateWithFlux toString world request)) = [Flux b])"
  using flux_trace [of toString world request] by auto

lemma nano_fetched:
  "fetched (fst (generateWithNanoBanana toString world request)) = [] \<or>
   (\<exists>b. fetched (fst (generateWithNanoBanana toString world request)) = [NanoBanana b])"
  using nano_trace [of toString world request] by auto

lemma imagen_fetched:
  "fetched (fst (generateWithImagen toString world request)) = [] \<or>
   (\<exists>b. fetched (fst (generateWithImagen toString world request)) = [Imagen b])"
  using imagen_trace [of toString world request] by auto

section \<open>The branches of the dispatcher\<close>

lemma dispatch_auto:
  assumes "model (options request) = ''auto''"
  shows "generateImages toString world request =
           (if isNanoBananaAvailable (env world) then generateWithNanoBanana toString world request
            else if isImagen4Available (env world) then generateWithImagen toString world request
            else generateWithFlux toString world request)"
  using assms by (simp add: generateImages_def)

lemma dispatch_nano:
  assumes "model (options request) = ''nano-banana''"
  shows "generateImages toString world request =
           (if isNanoBananaAvailable (env world) then generateWithNanoBanana toString world request
            else ([], Inl (Error ''Nano Banana Pro is not configured. Please set FAL_KEY.'')))"
  using assms by (simp add: generateImages_def)

lemma dispatch_imagen:
  assumes "model (options request) = ''imagen4''"
  shows "generateImages toString world request =
           (if isImagen4Available (env world) then generateWithImagen toString world request
            else ([], Inl (Error ''Imagen 4 is not configured. Please set GOOGLE_CLOUD_PROJECT_ID and GOOGLE_APPLICATION_CREDENTIALS.'')))"
  using assms by (simp add: generateImages_def)

lemma dispatch_flux:
  assumes "model (options request) = ''flux2''"
  shows "generateImages toString world request = generateWithFlux toString world request"
  using assms by (simp add: generateImages_def)

lemma dispatch_other:
  assumes "model (options request) \<notin> set [''auto'', ''nano-banana'', ''imagen4'', ''flux2'']"
  shows "generateImages toString world request = generateWithNanoBanana toString world request"
  using assms by (simp add: generateImages_def)

lemma dispatch_disj:
  "generateImages toString world request = generateWithNanoBanana toString world request \<or>
   generateImages toString world request = generateWithImagen toString world request \<or>
   generateImages toString world request = generateWithFlux toString world request \<or>
   (\<exists>message. generateImages toString world request = ([], Inl (Error message)))"
  by (simp add: generateImages_def Let_def)

lemma dispatch_cases:
  obtains
    (nano) "generateImages toString world request = generateWithNanoBanana toString world request"
  | (imagen) "generateImages toString world request = generateWithImagen toString world request"
  | (flux) "generateImages toString world request = generateWithFlux toString world request"
  | (refused) message where "generateImages toString world request = ([], Inl (Error message))"
  using dispatch_disj [of toString world request] by blast

section \<open>Automatic selection\<close>

lemma nano_success_model:
  "\<forall>out. snd (generateWithNanoBanana toString world request) = Inr out
         \<longrightarrow> out_model out = ''nano-banana''"
  using nano_success [of toString world request] by (metis prod.collapse)

lemma imagen_success_model:
  "\<forall>out. snd (generateWithImagen toString world request) = Inr out
         \<longrightarrow> out_model out = ''imagen4''"
  using imagen_success [of toString world request] by (metis prod.collapse)

lemma flux_success_model:
  "\<forall>out. snd (generateWithFlux toString world request) = Inr out
         \<longrightarrow> out_model out = ''flux2''"
  using flux_success [of toString world request] by (metis prod.collapse)

text \<open>
  C1. With \<open>model = auto\<close> the dispatcher hands the request to the Nano Banana client
  when that is available, else to the Imagen client when that is available, else to the
  FLUX client; the client it hands to is the only one entered, and a result, when there
  is one, carries that client's id. In the last case both availability checks have
  failed, so \<^verbatim>\<open>FAL_KEY\<close> is missing and the FLUX client ends with its own error.
\<close>

theorem auto_selection:
  assumes "model (options request) = ''auto''"
  shows
    "(isNanoBananaAvailable (env world) \<longrightarrow>
        generateImages toString world request = generateWithNanoBanana toString world request \<and>
        invoked (fst (generateImages toString world request)) = [NanoBananaClient] \<and>
        (\<forall>out. snd (generateImages toString world request) = Inr out
               \<longrightarrow> out_model out = ''nano-banana'')) \<and>
     (\<not> isNanoBananaAvailable (env world) \<and> isImagen4Available (env world) \<longrightarrow>
        generateImages toString world request = generateWithImagen toString world request \<and>
        invoked (fst (generateImages toString world request)) = [ImagenClient] \<and>
        (\<forall>out. snd (generateImages toString world request) = Inr out
               \<longrightarrow> out_model out = ''imagen4'')) \<and>
     (\<not> isNanoBananaAvailable (env world) \<and> \<not> isImagen4Available (env world) \<longrightarrow>
        generateImages toString world request = generateWithFlux toString world request \<and>
        invoked (fst (generateImages toString world request)) = [FluxClient] \<and>
        (\<forall>out. snd (generateImages toString world request) = Inr out
               \<longrightarrow> out_model out = ''flux2'') \<and>
        snd (generateImages toString world request) = Inl (Error ''FAL_KEY is not configured''))"
proof (intro conjI impI; (elim conjE)?)
  assume a: "isNanoBananaAvailable (env world)"
  then show g: "generateImages toString world request
                = generateWithNanoBanana toString world request"
    by (simp add: dispatch_auto [OF assms])
  show "invoked (fst (generateImages toString world request)) = [NanoBananaClient]"
    unfolding g by (rule nano_invoked)
  show "\<forall>out. snd (generateImages toString world request) = Inr out
              \<longrightarrow> out_model out = ''nano-banana''"
    unfolding g by (rule nano_success_model)
next
  assume a: "\<not> isNanoBananaAvailable (env world)" "isImagen4Available (env world)"
  then show g: "generateImages toString world request
                = generateWithImagen toString world request"
    by (simp add: dispatch_auto [OF assms])
  show "invoked (fst (generateImages toString world request)) = [ImagenClient]"
    unfolding g by (rule imagen_invoked)
  show "\<forall>out. snd (generateImages toString world request) = Inr out
              \<longrightarrow> out_model out = ''imagen4''"
    unfolding g by (rule imagen_success_model)
next
  assume a: "\<not> isNanoBananaAvailable (env world)" "\<not> isImagen4Available (env world)"
  then show g: "generateImages toString world request
                = generateWithFlux toString world request"
    by (simp add: dispatch_auto [OF assms])
  show "invoked (fst (generateImages toString world request)) = [FluxClient]"
    unfolding g by (rule flux_invoked)
  show "\<forall>out. snd (generateImages toString world request) = Inr out
              \<longrightarrow> out_model out = ''flux2''"
    unfolding g by (rule flux_success_model)
  from a(1) have "\<not> truthy (FAL_KEY (env world))"
    by (simp add: isNanoBananaAvailable_def)
  then show "snd (generateImages toString world request)
             = Inl (Error ''FAL_KEY is not configured'')"
    unfolding g by (simp add: flux_unconfigured)
qed

lemma env_google_facts:
  "\<not> isNanoBananaAvailable (env (answering_world env_google))"
  "isImagen4Available (env (answering_world env_google))"
  by (simp_all add: answering_world_def env_google_def isNanoBananaAvailable_def
      isImagen4Available_def truthy_def)

lemma example_auto: "model (options example_request) = ''auto''"
  by (simp add: example_request_def)

lemma imagen_serves_example:
  "snd (generateWithImagen decimal (answering_world env_google) example_request) =
     Inr \<lparr>images = [\<lparr>url = ''data:image/png;base64,iVBORw0KGgo='',
                      thumbnailUrl = ''data:image/png;base64,iVBORw0KGgo='',
                      width = 1920, height = 1080\<rparr>],
          prompt = buildPrompt decimal example_request,
          out_model = ''imagen4'',
          timeMs = 3500\<rparr>"
  by (simp add: generateWithImagen_def getAccessToken_def answering_world_def env_google_def
      truthy_def example_request_def imagen_getImageSize_def Let_def)

theorem auto_selection_witness:
  "model (options example_request) = ''auto'' \<and>
   \<not> isNanoBananaAvailable (env (answering_world env_google)) \<and>
   isImagen4Available (env (answering_world env_google)) \<and>
   invoked (fst (generateImages decimal (answering_world env_google) example_request))
     = [ImagenClient] \<and>
   snd (generateImages decimal (answering_world env_google) example_request)
     = snd (generateWithImagen decimal (answering_world env_google) example_request) \<and>
   out_model (projr (snd (generateImages decimal (answering_world env_google) example_request)))
     = ''imagen4''"
proof -
  from auto_selection [OF example_auto, of "answering_world env_google" decimal]
  have "\<not> isNanoBananaAvailable (env (answering_world env_google)) \<and>
        isImagen4Available (env (answering_world env_google)) \<longrightarrow>
        generateImages decimal (answering_world env_google) example_request
          = generateWithImagen decimal (answering_world env_google) example_request \<and>
        invoked (fst (generateImages decimal (answering_world env_google) example_request))
          = [ImagenClient] \<and>
        (\<forall>out. snd (generateImages decimal (answering_world env_google) example_request) = Inr out
               \<longrightarrow> out_model out = ''imagen4'')"
    by (elim conjE)
  then have "generateImages decimal (answering_world env_google) example_request
          = generateWithImagen decimal (answering_world env_google) example_request \<and>
        invoked (fst (generateImages decimal (answering_world env_google) example_request))
          = [ImagenClient] \<and>
        (\<forall>out. snd (generateImages decimal (answering_world env_google) example_request) = Inr out
               \<longrightarrow> out_model out = ''imagen4'')"
    by (rule mp) (intro conjI env_google_facts)
  then have served:
    "generateImages decimal (answering_world env_google) example_request
       = generateWithImagen decimal (answering_world env_google) example_request"
    and entered:
    "invoked (fst (generateImages decimal (answering_world env_google) example_request))
       = [ImagenClient]"
    and named:
    "\<forall>out. snd (generateImages decimal (answering_world env_google) example_request) = Inr out
               \<longrightarrow> out_model out = ''imagen4''"
    by blast+
  have same: "snd (generateImages decimal (answering_world env_google) example_request)
     = snd (generateWithImagen decimal (answering_world env_google) example_request)"
    by (simp only: served)
  from named [rule_format, OF same [unfolded imagen_serves_example]]
  have model: "out_model (projr (snd (generateImages decimal (answering_world env_google)
                 example_request))) = ''imagen4''"
    by (simp add: same imagen_serves_example)
  from example_auto env_google_facts entered same model show ?thesis by (intro conjI)
qed

text \<open>With nothing configured the fallback is entered and refuses.\<close>

lemma auto_with_nothing_configured:
  "generateImages decimal (answering_world env_nothing) example_request
   = ([Invoked FluxClient], Inl (Error ''FAL_KEY is not configured''))"
  by (simp add: dispatch_auto [OF example_auto] isNanoBananaAvailable_def
      isImagen4Available_def truthy_def answering_world_def env_nothing_def flux_unconfigured)

section \<open>A named provider that is not configured\<close>

lemma available_flags:
  "map_of (getAvailableModels e) ''nano-banana'' = Some (isNanoBananaAvailable e)"
  "map_of (getAvailableModels e) ''imagen4'' = Some (isImagen4Available e)"
  "map_of (getAvailableModels e) ''flux2'' = Some (truthy (FAL_KEY e))"
  by (simp_all add: getAvailableModels_def)

lemma names_in_messages:
  "sublist ''FAL_KEY'' ''Nano Banana Pro is not configured. Please set FAL_KEY.''"
  "sublist ''FAL_KEY'' ''FAL_KEY is not configured''"
  "sublist ''GOOGLE_CLOUD_PROJECT_ID''
     ''Imagen 4 is not configured. Please set GOOGLE_CLOUD_PROJECT_ID and GOOGLE_APPLICATION_CREDENTIALS.''"
  "sublist ''GOOGLE_APPLICATION_CREDENTIALS''
     ''Imagen 4 is not configured. Please set GOOGLE_CLOUD_PROJECT_ID and GOOGLE_APPLICATION_CREDENTIALS.''"
proof -
  have "''Nano Banana Pro is not configured. Please set FAL_KEY.''
        = ''Nano Banana Pro is not configured. Please set '' @ ''FAL_KEY'' @ ''.''"
    by simp
  then show "sublist ''FAL_KEY'' ''Nano Banana Pro is not configured. Please set FAL_KEY.''"
    by (metis sublist_appendI)
  have "''FAL_KEY is not configured'' = ''FAL_KEY'' @ '' is not configured''"
    by simp
  then show "sublist ''FAL_KEY'' ''FAL_KEY is not configured''"
    by (metis sublist_append_rightI)
  have "''Imagen 4 is not configured. Please set GOOGLE_CLOUD_PROJECT_ID and GOOGLE_APPLICATION_CREDENTIALS.''
        = ''Imagen 4 is not configured. Please set '' @ ''GOOGLE_CLOUD_PROJECT_ID''
          @ '' and GOOGLE_APPLICATION_CREDENTIALS.''"
    by simp
  then show "sublist ''GOOGLE_CLOUD_PROJECT_ID''
     ''Imagen 4 is not configured. Please set GOOGLE_CLOUD_PROJECT_ID and GOOGLE_APPLICATION_CREDENTIALS.''"
    by (metis sublist_appendI)
  have "''Imagen 4 is not configured. Please set GOOGLE_CLOUD_PROJECT_ID and GOOGLE_APPLICATION_CREDENTIALS.''
        = ''Imagen 4 is not configured. Please set GOOGLE_CLOUD_PROJECT_ID and ''
          @ ''GOOGLE_APPLICATION_CREDENTIALS'' @ ''.''"
    by simp
  then show "sublist ''GOOGLE_APPLICATION_CREDENTIALS''
     ''Imagen 4 is not configured. Please set GOOGLE_CLOUD_PROJECT_ID and GOOGLE_APPLICATION_CREDENTIALS.''"
    by (metis sublist_appendI)
qed

lemma refused_nano:
  assumes "model (options request) = ''nano-banana''" "\<not> isNanoBananaAvailable (env world)"
  shows "generateImages toString world request
         = ([], Inl (Error ''Nano Banana Pro is not configured. Please set FAL_KEY.''))"
  using assms by (simp add: dispatch_nano)

lemma refused_imagen:
  assumes "model (options request) = ''imagen4''" "\<not> isImagen4Available (env world)"
  shows "generateImages toString world request
         = ([], Inl (Error ''Imagen 4 is not configured. Please set GOOGLE_CLOUD_PROJECT_ID and GOOGLE_APPLICATION_CREDENTIALS.''))"
  using assms by (simp add: dispatch_imagen)

lemma refused_flux:
  assumes "model (options request) = ''flux2''" "\<not> truthy (FAL_KEY (env world))"
  shows "generateImages toString world request
         = ([Invoked FluxClient], Inl (Error ''FAL_KEY is not configured''))"
  using assms by (simp add: dispatch_flux flux_unconfigured)

text \<open>
  C2. A request names one of the three providers and that provider's availability flag is
  false. Then the call ends with an error whose message names the variable that is not
  set: for \<open>nano-banana\<close> and \<open>imagen4\<close> the dispatcher refuses before it enters any
  client, for \<open>flux2\<close> the FLUX client refuses as its first step. Nothing is sent, no
  token is asked for, and no client of another provider is entered.
\<close>

theorem explicit_unavailable_provider:
  assumes "model (options request) = m"
    and "m \<in> set [''nano-banana'', ''imagen4'', ''flux2'']"
    and "map_of (getAvailableModels (env world)) m = Some False"
  shows
    "(m = ''nano-banana'' \<longrightarrow> generateImages toString world request
        = ([], Inl (Error ''Nano Banana Pro is not configured. Please set FAL_KEY.''))) \<and>
     (m = ''imagen4'' \<longrightarrow> generateImages toString world request
        = ([], Inl (Error ''Imagen 4 is not configured. Please set GOOGLE_CLOUD_PROJECT_ID and GOOGLE_APPLICATION_CREDENTIALS.''))) \<and>
     (m = ''flux2'' \<longrightarrow> generateImages toString world request
        = ([Invoked FluxClient], Inl (Error ''FAL_KEY is not configured''))) \<and>
     (\<exists>message. snd (generateImages toString world request) = Inl (Error message) \<and>
        (m \<noteq> ''imagen4'' \<longrightarrow>
           \<not> truthy (FAL_KEY (env world)) \<and> sublist ''FAL_KEY'' message) \<and>
        (m = ''imagen4'' \<longrightarrow>
           (\<not> truthy (GOOGLE_CLOUD_PROJECT_ID (env world)) \<or>
            \<not> truthy (GOOGLE_APPLICATION_CREDENTIALS (env world))) \<and>
           sublist ''GOOGLE_CLOUD_PROJECT_ID'' message \<and>
           sublist ''GOOGLE_APPLICATION_CREDENTIALS'' message)) \<and>
     (\<forall>ev \<in> set (fst (generateImages toString world request)). \<not> outbound ev) \<and>
     fetched (fst (generateImages toString world request)) = [] \<and>
     set (invoked (fst (generateImages toString world request)))
       \<subseteq> (if m = ''flux2'' then {FluxClient} else {})"
proof -
  from assms(2) consider "m = ''nano-banana''" | "m = ''imagen4''" | "m = ''flux2''"
    by auto
  then show ?thesis
  proof cases
    case 1
    with assms(3) have "\<not> isNanoBananaAvailable (env world)"
      by (simp add: available_flags)
    with 1 assms(1) refused_nano [of request world toString] names_in_messages(1)
    show ?thesis by (simp add: isNanoBananaAvailable_def)
  next
    case 2
    with assms(3) have "\<not> isImagen4Available (env world)"
      by (simp add: available_flags)
    with 2 assms(1) refused_imagen [of request world toString] names_in_messages(3,4)
    show ?thesis by (simp add: isImagen4Available_def)
  next
    case 3
    with assms(3) have "\<not> truthy (FAL_KEY (env world))"
      by (simp add: available_flags)
    with 3 assms(1) refused_flux [of request world toString] names_in_messages(2)
    show ?thesis by simp
  qed
qed

lemma nano_named: "model (options (with_model ''nano-banana'' example_request)) = ''nano-banana''"
  by (simp add: with_model_def)

lemma nano_flag_google:
  "map_of (getAvailableModels (env (answering_world env_google))) ''nano-banana'' = Some False"
  by (simp add: available_flags isNanoBananaAvailable_def answering_world_def env_google_def
      truthy_def)

theorem explicit_unavailable_provider_witness:
  "model (options (with_model ''nano-banana'' example_request)) = ''nano-banana'' \<and>
   ''nano-banana'' \<in> set [''nano-banana'', ''imagen4'', ''flux2''] \<and>
   map_of (getAvailableModels (env (answering_world env_google))) ''nano-banana'' = Some False \<and>
   isImagen4Available (env (answering_world env_google)) \<and>
   generateImages decimal (answering_world env_google) (with_model ''nano-banana'' example_request)
     = ([], Inl (Error ''Nano Banana Pro is not configured. Please set FAL_KEY.''))"
proof -
  have m: "''nano-banana'' \<in> set [''nano-banana'', ''imagen4'', ''flux2'']"
    by simp
  from explicit_unavailable_provider [OF nano_named m nano_flag_google, of decimal]
  have "''nano-banana'' = ''nano-banana'' \<longrightarrow>
        generateImages decimal (answering_world env_google)
          (with_model ''nano-banana'' example_request)
        = ([], Inl (Error ''Nano Banana Pro is not configured. Please set FAL_KEY.''))"
    by (rule conjunct1)
  then have "generateImages decimal (answering_world env_google)
          (with_model ''nano-banana'' example_request)
        = ([], Inl (Error ''Nano Banana Pro is not configured. Please set FAL_KEY.''))"
    by (rule mp) (rule refl)
  with nano_named m nano_flag_google env_google_facts(2) show ?thesis
    by (intro conjI)
qed

section \<open>One client, one request\<close>

lemma one_client:
  "length (invoked (fst (generateImages toString world request))) \<le> 1"
  by (rule dispatch_cases [of toString world request])
     (simp_all add: nano_invoked imagen_invoked flux_invoked)

lemma one_fetch:
  "length (fetched (fst (generateImages toString world request))) \<le> 1"
proof (rule dispatch_cases [of toString world request])
  assume "generateImages toString world request = generateWithNanoBanana toString world request"
  with nano_fetched [of toString world request] show ?thesis by auto
next
  assume "generateImages toString world request = generateWithImagen toString world request"
  with imagen_fetched [of toString world request] show ?thesis by auto
next
  assume "generateImages toString world request = generateWithFlux toString world request"
  with flux_fetched [of toString world request] show ?thesis by auto
next
  fix message
  assume "generateImages toString world request = ([], Inl (Error message))"
  then show ?thesis by simp
qed

lemma fetch_of_invoked:
  assumes "b \<in> set (fetched (fst (generateImages toString world request)))"
  shows "invoked (fst (generateImages toString world request)) = [provider_of b]"
proof (rule dispatch_cases [of toString world request])
  assume g: "generateImages toString world request
             = generateWithNanoBanana toString world request"
  with assms nano_fetched [of toString world request] show ?thesis
    by (auto simp: nano_invoked)
next
  assume g: "generateImages toString world request = generateWithImagen toString world request"
  with assms imagen_fetched [of toString world request] show ?thesis
    by (auto simp: imagen_invoked)
next
  assume g: "generateImages toString world request = generateWithFlux toString world request"
  with assms flux_fetched [of toString world request] show ?thesis
    by (auto simp: flux_invoked)
next
  fix message
  assume "generateImages toString world request = ([], Inl (Error message))"
  with assms show ?thesis by simp
qed

lemma auto_invoked:
  assumes "model (options request) = ''auto''"
  shows "invoked (fst (generateImages toString world request)) =
           [if isNanoBananaAvailable (env world) then NanoBananaClient
            else if isImagen4Available (env world) then ImagenClient
            else FluxClient]"
  by (simp add: dispatch_auto [OF assms] nano_invoked imagen_invoked flux_invoked)

text \<open>
  C4. In every call of the dispatcher at most one provider client is entered and at most
  one request is sent, and a request that is sent goes to the provider whose client was
  entered. Under \<open>auto\<close> the outcome of the call is the outcome of the one client that
  the availability checks select, an error included: the trace holds that client alone.
\<close>

theorem at_most_one_provider_call:
  "length (invoked (fst (generateImages toString world request))) \<le> 1 \<and>
   length (fetched (fst (generateImages toString world request))) \<le> 1 \<and>
   (\<forall>b \<in> set (fetched (fst (generateImages toString world request))).
      invoked (fst (generateImages toString world request)) = [provider_of b]) \<and>
   (model (options request) = ''auto'' \<longrightarrow>
      generateImages toString world request =
        (if isNanoBananaAvailable (env world) then generateWithNanoBanana toString world request
         else if isImagen4Available (env world) then generateWithImagen toString world request
         else generateWithFlux toString world request) \<and>
      invoked (fst (generateImages toString world request)) =
        [if isNanoBananaAvailable (env world) then NanoBananaClient
         else if isImagen4Available (env world) then ImagenClient
         else FluxClient])"
  using one_client one_fetch fetch_of_invoked dispatch_auto auto_invoked
  by (intro conjI ballI impI) blast+

lemma env_all_facts:
  "isNanoBananaAvailable (env (failing_world env_all))"
  "isImagen4Available (env (failing_world env_all))"
  by (simp_all add: failing_world_def env_all_def isNanoBananaAvailable_def
      isImagen4Available_def truthy_def)

lemma decimal_503: "decimal 503 = ''503''"
  by (simp add: decimal.simps)

lemma nano_fails_example:
  "snd (generateWithNanoBanana decimal (failing_world env_all) example_request)
   = Inl (Error ''Nano Banana Pro API error: 503 - busy'')"
  by (simp add: generateWithNanoBanana_def failing_world_def env_all_def Let_def decimal_503)

theorem at_most_one_provider_call_witness:
  "model (options example_request) = ''auto'' \<and>
   isNanoBananaAvailable (env (failing_world env_all)) \<and>
   isImagen4Available (env (failing_world env_all)) \<and>
   snd (generateImages decimal (failing_world env_all) example_request)
     = Inl (Error ''Nano Banana Pro API error: 503 - busy'') \<and>
   invoked (fst (generateImages decimal (failing_world env_all) example_request))
     = [NanoBananaClient] \<and>
   length (fetched (fst (generateImages decimal (failing_world env_all) example_request))) \<le> 1"
proof -
  note T = at_most_one_provider_call [of decimal "failing_world env_all" example_request]
  from T have f: "length (fetched (fst (generateImages decimal (failing_world env_all)
                    example_request))) \<le> 1"
    by (elim conjE)
  from T have "model (options example_request) = ''auto'' \<longrightarrow>
      generateImages decimal (failing_world env_all) example_request =
        (if isNanoBananaAvailable (env (failing_world env_all))
         then generateWithNanoBanana decimal (failing_world env_all) example_request
         else if isImagen4Available (env (failing_world env_all))
         then generateWithImagen decimal (failing_world env_all) example_request
         else generateWithFlux decimal (failing_world env_all) example_request) \<and>
      invoked (fst (generateImages decimal (failing_world env_all) example_request)) =
        [if isNanoBananaAvailable (env (failing_world env_all)) then NanoBananaClient
         else if isImagen4Available (env (failing_world env_all)) then ImagenClient
         else FluxClient]"
    by (elim conjE)
  then have "generateImages decimal (failing_world env_all) example_request =
        (if isNanoBananaAvailable (env (failing_world env_all))
         then generateWithNanoBanana decimal (failing_world env_all) example_request
         else if isImagen4Available (env (failing_world env_all))
         then generateWithImagen decimal (failing_world env_all) example_request
         else generateWithFlux decimal (failing_world env_all) example_request) \<and>
      invoked (fst (generateImages decimal (failing_world env_all) example_request)) =
        [if isNanoBananaAvailable (env (failing_world env_all)) then NanoBananaClient
         else if isImagen4Available (env (failing_world env_all)) then ImagenClient
         else FluxClient]"
    by (rule mp) (rule example_auto)
  then have g: "generateImages decimal (failing_world env_all) example_request
                = generateWithNanoBanana decimal (failing_world env_all) example_request"
    and i: "invoked (fst (generateImages decimal (failing_world env_all) example_request))
            = [NanoBananaClient]"
    unfolding if_P [OF env_all_facts(1)] by blast+
  have e: "snd (generateImages decimal (failing_world env_all) example_request)
           = Inl (Error ''Nano Banana Pro API error: 503 - busy'')"
    by (simp only: g nano_fails_example)
  from example_auto env_all_facts e i f show ?thesis by (intro conjI)
qed

section \<open>What is sent and what comes back\<close>

lemma flux_sent:
  "fetched (fst (generateWithFlux toString world request)) = [] \<or>
   fetched (fst (generateWithFlux toString world request)) =
     [Flux \<lparr>flux_prompt = buildPrompt toString request,
            negative_prompt = buildNegativePrompt,
            image_size = flux_size (resolution (options request)),
            flux_num_images = count (options request),
            seed = Math_random world\<rparr>]"
  by (simp add: generateWithFlux_def Let_def split: option.splits response.splits)

lemma nano_sent:
  "fetched (fst (generateWithNanoBanana toString world request)) = [] \<or>
   fetched (fst (generateWithNanoBanana toString world request)) =
     [NanoBanana \<lparr>nano_prompt = buildPrompt toString request,
                  nano_resolution = getResolution (resolution (options request)),
                  nano_num_images = count (options request),
                  aspect_ratio = nano_getAspectRatio\<rparr>]"
  by (simp add: generateWithNanoBanana_def Let_def split: option.splits response.splits)

lemma imagen_sent:
  "fetched (fst (generateWithImagen toString world request)) = [] \<or>
   fetched (fst (generateWithImagen toString world request)) =
     [Imagen \<lparr>imagen_prompt = buildPrompt toString request,
              negativePrompt = buildNegativePrompt,
              sampleCount = count (options request),
              aspectRatio = imagen_getAspectRatio (resolution (options request))\<rparr>]"
proof (cases "getAccessToken world")
  case (Pair asked result)
  with getAccessToken_trace [of world]
  have "asked = [] \<and> (\<exists>e. result = Inl e) \<or> asked = [AccessTokenRequested]"
    by simp
  with Pair show ?thesis
    by (auto simp: generateWithImagen_def Let_def
        split: option.splits response.splits sum.splits)
qed

lemma success_cases:
  assumes "generateImages toString world request = (trace, Inr out)"
  obtains
    (nano) "generateWithNanoBanana toString world request = (trace, Inr out)"
           "invoked trace = [NanoBananaClient]"
  | (imagen) "generateWithImagen toString world request = (trace, Inr out)"
           "invoked trace = [ImagenClient]"
  | (flux) "generateWithFlux toString world request = (trace, Inr out)"
           "invoked trace = [FluxClient]"
proof (rule dispatch_cases [of toString world request])
  assume g: "generateImages toString world request
             = generateWithNanoBanana toString world request"
  with assms nano_invoked [of toString world request] show ?thesis
    by (intro nano) simp_all
next
  assume g: "generateImages toString world request = generateWithImagen toString world request"
  with assms imagen_invoked [of toString world request] show ?thesis
    by (intro imagen) simp_all
next
  assume g: "generateImages toString world request = generateWithFlux toString world request"
  with assms flux_invoked [of toString world request] show ?thesis
    by (intro flux) simp_all
next
  fix message
  assume "generateImages toString world request = ([], Inl (Error message))"
  with assms show ?thesis by simp
qed

lemma success_prompt:
  assumes "generateImages toString world request = (trace, Inr out)"
  shows "prompt out = buildPrompt toString request"
  using assms
  by (rule success_cases) (auto dest: nano_success imagen_success flux_success)

lemma success_model:
  assumes "generateImages toString world request = (trace, Inr out)"
  shows "out_model out \<in> set [''nano-banana'', ''imagen4'', ''flux2''] \<and>
         out_model out \<noteq> ''auto'' \<and> out_model out \<noteq> ''gemini'' \<and>
         invoked trace = [if out_model out = ''nano-banana'' then NanoBananaClient
                          else if out_model out = ''imagen4'' then ImagenClient
                          else FluxClient]"
  using assms
  by (rule success_cases) (auto dest: nano_success imagen_success flux_success)

lemma negative_prompt_text:
  "buildNegativePrompt =
     ''blurry, low quality, distorted, cartoon, anime, illustration, \<newline>'' @
     ''sketch, painting, unrealistic, fantasy, floating objects,\<newline>'' @
     ''people, cars, animals, text overlay, watermark, signature,\<newline>'' @
     ''unfinished construction, scaffolding, construction equipment,\<newline>'' @
     ''disproportionate, impossible architecture, physically impossible''"
  by (simp add: buildNegativePrompt_eq negative_text_def)

text \<open>
  C9. A result of the dispatcher carries the id of the provider whose client produced it:
  one of \<open>nano-banana\<close>, \<open>imagen4\<close> and \<open>flux2\<close>, never \<open>auto\<close> or \<open>gemini\<close>, and
  the client entered is the one of that id. A request that names \<open>gemini\<close> is handed to
  the Nano Banana client in every world, with no availability check by the dispatcher
  (when \<^verbatim>\<open>FAL_KEY\<close> is missing it is the client that refuses), and a result is
  reported as \<open>nano-banana\<close>.
\<close>

theorem result_model_is_serving_provider:
  "(\<forall>trace out. generateImages toString world request = (trace, Inr out) \<longrightarrow>
      out_model out \<in> set [''nano-banana'', ''imagen4'', ''flux2''] \<and>
      out_model out \<noteq> ''auto'' \<and> out_model out \<noteq> ''gemini'' \<and>
      invoked trace = [if out_model out = ''nano-banana'' then NanoBananaClient
                       else if out_model out = ''imagen4'' then ImagenClient
                       else FluxClient]) \<and>
   (model (options request) = ''gemini'' \<longrightarrow>
      generateImages toString world request = generateWithNanoBanana toString world request \<and>
      (\<forall>trace out. generateImages toString world request = (trace, Inr out)
         \<longrightarrow> out_model out = ''nano-banana'') \<and>
      (\<not> isNanoBananaAvailable (env world) \<longrightarrow>
         generateImages toString world request
         = ([Invoked NanoBananaClient], Inl (Error ''FAL_KEY is not configured''))))"
proof (intro conjI allI impI)
  fix trace out
  assume "generateImages toString world request = (trace, Inr out)"
  from success_model [OF this]
  show "out_model out \<in> set [''nano-banana'', ''imagen4'', ''flux2'']"
    and "out_model out \<noteq> ''auto''" and "out_model out \<noteq> ''gemini''"
    and "invoked trace = [if out_model out = ''nano-banana'' then NanoBananaClient
                          else if out_model out = ''imagen4'' then ImagenClient
                          else FluxClient]"
    by blast+
next
  assume gemini: "model (options request) = ''gemini''"
  then show g: "generateImages toString world request
                = generateWithNanoBanana toString world request"
    by (intro dispatch_other) simp
  {
    fix trace out
    assume "generateImages toString world request = (trace, Inr out)"
    with g nano_success [of toString world request trace out]
    show "out_model out = ''nano-banana''" by simp
  }
  assume "\<not> isNanoBananaAvailable (env world)"
  then show "generateImages toString world request
             = ([Invoked NanoBananaClient], Inl (Error ''FAL_KEY is not configured''))"
    unfolding g by (intro nano_unconfigured) (simp add: isNanoBananaAvailable_def)
qed

lemma gemini_named: "model (options (with_model ''gemini'' example_request)) = ''gemini''"
  by (simp add: with_model_def)

lemma nano_serves_gemini:
  "generateWithNanoBanana decimal (answering_world env_fal) (with_model ''gemini'' example_request) =
     ([Invoked NanoBananaClient,
       Fetch NANO_BANANA_API_URL ''Key fal-key''
         (NanoBanana \<lparr>nano_prompt = buildPrompt decimal (with_model ''gemini'' example_request),
                      nano_resolution = ''2K'', nano_num_images = 1, aspect_ratio = ''16:9''\<rparr>)],
      Inr \<lparr>images = [\<lparr>url = ''https://fal.media/nano.jpg'',
                       thumbnailUrl = ''https://fal.media/nano.jpg'',
                       width = 1920, height = 1080\<rparr>],
           prompt = buildPrompt decimal (with_model ''gemini'' example_request),
           out_model = ''nano-banana'',
           timeMs = 3500\<rparr>)"
  by (simp add: generateWithNanoBanana_def answering_world_def env_fal_def Let_def
      with_model_def example_request_def getResolution_def nano_getAspectRatio_def
      nano_getImageSize_def or_else_def)

theorem result_model_is_serving_provider_witness:
  "model (options (with_model ''gemini'' example_request)) = ''gemini'' \<and>
   generateImages decimal (answering_world env_fal) (with_model ''gemini'' example_request)
     = generateWithNanoBanana decimal (answering_world env_fal)
         (with_model ''gemini'' example_request) \<and>
   out_model (projr (snd (generateImages decimal (answering_world env_fal)
      (with_model ''gemini'' example_request)))) = ''nano-banana'' \<and>
   invoked (fst (generateImages decimal (answering_world env_fal)
      (with_model ''gemini'' example_request))) = [NanoBananaClient]"
proof -
  note T = result_model_is_serving_provider
    [of decimal "answering_world env_fal" "with_model ''gemini'' example_request"]
  from T [THEN conjunct2, THEN mp, OF gemini_named]
  have g: "generateImages decimal (answering_world env_fal) (with_model ''gemini'' example_request)
     = generateWithNanoBanana decimal (answering_world env_fal)
         (with_model ''gemini'' example_request)"
    by (rule conjunct1)
  note r = g [unfolded nano_serves_gemini]
  from T [THEN conjunct1, rule_format, OF r]
  have "invoked [Invoked NanoBananaClient,
       Fetch NANO_BANANA_API_URL ''Key fal-key''
         (NanoBanana \<lparr>nano_prompt = buildPrompt decimal (with_model ''gemini'' example_request),
                      nano_resolution = ''2K'', nano_num_images = 1, aspect_ratio = ''16:9''\<rparr>)]
        = [NanoBananaClient]"
    by simp
  then have i: "invoked (fst (generateImages decimal (answering_world env_fal)
      (with_model ''gemini'' example_request))) = [NanoBananaClient]"
    by (simp only: r fst_conv)
  have m: "out_model (projr (snd (generateImages decimal (answering_world env_fal)
      (with_model ''gemini'' example_request)))) = ''nano-banana''"
    by (simp add: r)
  from gemini_named g m i show ?thesis by (intro conjI)
qed

lemma env_fal_facts:
  "isNanoBananaAvailable (env (answering_world env_fal))"
  by (simp add: answering_world_def env_fal_def isNanoBananaAvailable_def truthy_def)

lemma nano_serves_example:
  "snd (generateWithNanoBanana decimal (answering_world env_fal) example_request) =
      Inr \<lparr>images = [\<lparr>url = ''https://fal.media/nano.jpg'',
                       thumbnailUrl = ''https://fal.media/nano.jpg'',
                       width = 1920, height = 1080\<rparr>],
           prompt = buildPrompt decimal example_request,
           out_model = ''nano-banana'',
           timeMs = 3500\<rparr>"
  by (simp add: generateWithNanoBanana_def answering_world_def env_fal_def Let_def
      example_request_def nano_getImageSize_def or_else_def)

section \<open>Resolution tiers\<close>

lemma flux_size_tiers:
  "flux_size ''sd'' = (Some 1024, Some 768)"
  "flux_size ''hd'' = (Some 1536, Some 1024)"
  "flux_size ''4k'' = (Some 2048, Some 1536)"
  by (simp_all add: flux_size_def get_property_def sizeMap_def sizeMap_hd_def)

lemma imagen_size_tiers:
  "imagen_getImageSize ''sd'' = (1280, 720)"
  "imagen_getImageSize ''hd'' = (1920, 1080)"
  "imagen_getImageSize ''4k'' = (3840, 2160)"
  by (simp_all add: imagen_getImageSize_def)

lemma nano_size_tiers:
  "nano_getImageSize ''sd'' = (1280, 720)"
  "nano_getImageSize ''hd'' = (1920, 1080)"
  "nano_getImageSize ''4k'' = (3840, 2160)"
  by (simp_all add: nano_getImageSize_def)

lemma tier_cases:
  assumes "t \<in> set Resolution"
  obtains "t = ''sd''" | "t = ''hd''" | "t = ''4k''"
  using assms by (auto simp: Resolution_def)

lemma flux_sends_size:
  assumes "b \<in> set (fetched (fst (generateWithFlux toString world request)))"
  shows "\<exists>f. b = Flux f \<and> image_size f = flux_size (resolution (options request))"
  using assms flux_sent [of toString world request] by auto

lemma imagen_reports:
  assumes "generateWithImagen toString world request = (trace, Inr out)"
    and "img \<in> set (images out)"
  shows "(width img, height img) = imagen_getImageSize (resolution (options request))"
  using assms
  by (auto simp: generateWithImagen_def Let_def
      split: option.splits response.splits if_splits sum.splits prod.splits)

lemma nano_reports:
  assumes "generateWithNanoBanana toString world request = (trace, Inr out)"
  shows "\<exists>sent answered.
           fetched trace = [NanoBanana sent] \<and> nano_banana_api world sent = Json answered \<and>
           map (\<lambda>img. (width img, height img)) (images out) =
             map (\<lambda>img. (or_else (nano_width img)
                               (fst (nano_getImageSize (resolution (options request)))),
                           or_else (nano_height img)
                               (snd (nano_getImageSize (resolution (options request))))))
                 answered"
  using assms
  by (auto simp: generateWithNanoBanana_def Let_def comp_def
      split: option.splits response.splits if_splits)

lemma flux_reports:
  assumes "generateWithFlux toString world request = (trace, Inr out)"
  shows "\<exists>sent answered.
           fetched trace = [Flux sent] \<and> flux_api world sent = Json answered \<and>
           image_size sent = flux_size (resolution (options request)) \<and>
           map (\<lambda>img. (width img, height img)) (images out) =
             map (\<lambda>img. (fal_width img, fal_height img)) answered"
  using assms
  by (auto simp: generateWithFlux_def Let_def comp_def
      split: option.splits response.splits if_splits)

lemma auto_never_flux:
  assumes "model (options request) = ''auto''"
    and "generateImages toString world request = (trace, Inr out)"
  shows "out_model out \<noteq> ''flux2''"
proof (cases "isNanoBananaAvailable (env world)")
  case True
  with assms have "generateWithNanoBanana toString world request = (trace, Inr out)"
    by (simp add: dispatch_auto)
  from nano_success [OF this] show ?thesis by simp
next
  case nano: False
  show ?thesis
  proof (cases "isImagen4Available (env world)")
    case True
    with nano assms have "generateWithImagen toString world request = (trace, Inr out)"
      by (simp add: dispatch_auto)
    from imagen_success [OF this] show ?thesis by simp
  next
    case False
    with nano assms have "generateWithFlux toString world request = (trace, Inr out)"
      by (simp add: dispatch_auto)
    moreover from nano have "\<not> truthy (FAL_KEY (env world))"
      by (simp add: isNanoBananaAvailable_def)
    ultimately show ?thesis by (simp add: flux_unconfigured)
  qed
qed

section \<open>What a configured client sends and reports\<close>

lemma flux_configured_sends:
  assumes "truthy (FAL_KEY (env world))"
  shows "fetched (fst (generateWithFlux toString world request)) =
           [Flux \<lparr>flux_prompt = buildPrompt toString request,
                  negative_prompt = buildNegativePrompt,
                  image_size = flux_size (resolution (options request)),
                  flux_num_images = count (options request),
                  seed = Math_random world\<rparr>]"
  using assms
  by (simp add: generateWithFlux_def Let_def truthy_def split: option.splits response.splits)

lemma flux_answered:
  assumes "truthy (FAL_KEY (env world))"
    and "flux_api world \<lparr>flux_prompt = buildPrompt toString request,
                          negative_prompt = buildNegativePrompt,
                          image_size = flux_size (resolution (options request)),
                          flux_num_images = count (options request),
                          seed = Math_random world\<rparr> = Json answered"
  shows "\<exists>out. snd (generateWithFlux toString world request) = Inr out \<and>
               out_model out = ''flux2'' \<and>
               map (\<lambda>img. (width img, height img)) (images out) =
                 map (\<lambda>img. (fal_width img, fal_height img)) answered"
  using assms
  by (simp add: generateWithFlux_def Let_def truthy_def comp_def split: option.splits)

lemma nano_configured_sends:
  assumes "truthy (FAL_KEY (env world))"
  shows "fetched (fst (generateWithNanoBanana toString world request)) =
           [NanoBanana \<lparr>nano_prompt = buildPrompt toString request,
                        nano_resolution =
                          (if resolution (options request) = ''4k'' then ''4K''
                           else if resolution (options request) = ''hd'' then ''2K''
                           else ''1K''),
                        nano_num_images = count (options request),
                        aspect_ratio = ''16:9''\<rparr>]"
  using assms
  by (simp add: generateWithNanoBanana_def Let_def truthy_def getResolution_def
      nano_getAspectRatio_def split: option.splits response.splits)

lemma nano_answered:
  assumes "truthy (FAL_KEY (env world))"
    and "nano_banana_api world
           \<lparr>nano_prompt = buildPrompt toString request,
            nano_resolution =
              (if resolution (options request) = ''4k'' then ''4K''
               else if resolution (options request) = ''hd'' then ''2K''
               else ''1K''),
            nano_num_images = count (options request),
            aspect_ratio = ''16:9''\<rparr> = Json answered"
  shows "\<exists>out. snd (generateWithNanoBanana toString world request) = Inr out \<and>
               out_model out = ''nano-banana'' \<and>
               map (\<lambda>img. (width img, height img)) (images out) =
                 map (\<lambda>img.
                        (case nano_width img of
                           None \<Rightarrow> fst (nano_getImageSize (resolution (options request)))
                         | Some n \<Rightarrow>
                             if n = 0 then fst (nano_getImageSize (resolution (options request)))
                             else n,
                         case nano_height img of
                           None \<Rightarrow> snd (nano_getImageSize (resolution (options request)))
                         | Some n \<Rightarrow>
                             if n = 0 then snd (nano_getImageSize (resolution (options request)))
                             else n))
                     answered"
proof -
  have sent: "\<lparr>nano_prompt = buildPrompt toString request,
            nano_resolution = getResolution (resolution (options request)),
            nano_num_images = count (options request),
            aspect_ratio = nano_getAspectRatio\<rparr>
          = \<lparr>nano_prompt = buildPrompt toString request,
            nano_resolution =
              (if resolution (options request) = ''4k'' then ''4K''
               else if resolution (options request) = ''hd'' then ''2K''
               else ''1K''),
            nano_num_images = count (options request),
            aspect_ratio = ''16:9''\<rparr>"
    by (simp add: getResolution_def nano_getAspectRatio_def)
  from assms(1) obtain apiKey where "FAL_KEY (env world) = Some apiKey" "apiKey \<noteq> []"
    by (auto simp: truthy_def split: option.splits)
  then show ?thesis
    using assms(2)
    by (simp add: generateWithNanoBanana_def Let_def sent comp_def or_else_def)
qed

lemma getAccessToken_granted:
  assumes "truthy (GOOGLE_APPLICATION_CREDENTIALS (env world))"
    and "google_auth world = Some (Some token)" and "token \<noteq> []"
  shows "getAccessToken world = ([AccessTokenRequested], Inr token)"
  using assms by (simp add: getAccessToken_def)

lemma imagen_configured_sends:
  assumes "isImagen4Available (env world)"
    and "google_auth world = Some (Some token)" and "token \<noteq> []"
  shows "fetched (fst (generateWithImagen toString world request)) =
           [Imagen \<lparr>imagen_prompt = buildPrompt toString request,
                    negativePrompt = buildNegativePrompt,
                    sampleCount = count (options request),
                    aspectRatio = ''16:9''\<rparr>]"
proof -
  from assms(1) obtain projectId where
    p: "GOOGLE_CLOUD_PROJECT_ID (env world) = Some projectId" "projectId \<noteq> []"
    and c: "truthy (GOOGLE_APPLICATION_CREDENTIALS (env world))"
    by (auto simp: isImagen4Available_def truthy_def split: option.splits)
  show ?thesis
    by (simp add: generateWithImagen_def Let_def p getAccessToken_granted [OF c assms(2,3)]
        imagen_getAspectRatio_def split: response.splits)
qed

lemma imagen_answered:
  assumes "isImagen4Available (env world)"
    and "google_auth world = Some (Some token)" and "token \<noteq> []"
    and "imagen_api world \<lparr>imagen_prompt = buildPrompt toString request,
                            negativePrompt = buildNegativePrompt,
                            sampleCount = count (options request),
                            aspectRatio = ''16:9''\<rparr> = Json answered"
  shows "\<exists>out. snd (generateWithImagen toString world request) = Inr out \<and>
               out_model out = ''imagen4'' \<and>
               map (\<lambda>img. (width img, height img)) (images out) =
                 map (\<lambda>prediction. imagen_getImageSize (resolution (options request))) answered"
proof -
  from assms(1) obtain projectId where
    p: "GOOGLE_CLOUD_PROJECT_ID (env world) = Some projectId" "projectId \<noteq> []"
    and c: "truthy (GOOGLE_APPLICATION_CREDENTIALS (env world))"
    by (auto simp: isImagen4Available_def truthy_def split: option.splits)
  show ?thesis
    using assms(4)
    by (simp add: generateWithImagen_def Let_def p getAccessToken_granted [OF c assms(2,3)]
        imagen_getAspectRatio_def comp_def)
qed

lemma buildPrompt_ignores_options:
  "buildPrompt toString (request\<lparr>options := opts\<rparr>) = buildPrompt toString request"
  by (simp add: buildPrompt_def prompt_text_def)

section \<open>The tiers in the provider calls\<close>

text \<open>
  C5, as amended. Each client has its own fixed table from the three tiers to a width and
  a height; in each table the width of every tier exceeds its height, and the pair of
  \<open>sd\<close> differs from the pairs of \<open>hd\<close> and \<open>4k\<close>. Of the three provider calls only
  the one of the FLUX client carries the pair: whenever \<^verbatim>\<open>FAL_KEY\<close> is set it sends
  one request whose \<^verbatim>\<open>image_size\<close> is the pair of the request's tier. The Nano Banana
  client sends the tier as \<open>1K\<close>, \<open>2K\<close> or \<open>4K\<close> with the ratio \<open>16:9\<close>, the Imagen
  client sends the ratio \<open>16:9\<close> alone, and both use their pair for the sizes they
  report: the Imagen client for every image of the answer, the Nano Banana client for
  the images whose size the answer does not give.
\<close>

theorem resolution_tiers_are_landscape:
  "(\<forall>t \<in> set Resolution.
      (\<exists>w h. flux_size t = (Some w, Some h) \<and> h < w) \<and>
      snd (imagen_getImageSize t) < fst (imagen_getImageSize t) \<and>
      snd (nano_getImageSize t) < fst (nano_getImageSize t)) \<and>
   flux_size ''sd'' \<noteq> flux_size ''hd'' \<and> flux_size ''sd'' \<noteq> flux_size ''4k'' \<and>
   imagen_getImageSize ''sd'' \<noteq> imagen_getImageSize ''hd'' \<and>
   imagen_getImageSize ''sd'' \<noteq> imagen_getImageSize ''4k'' \<and>
   nano_getImageSize ''sd'' \<noteq> nano_getImageSize ''hd'' \<and>
   nano_getImageSize ''sd'' \<noteq> nano_getImageSize ''4k'' \<and>
   (truthy (FAL_KEY (env world)) \<longrightarrow>
      fetched (fst (generateWithFlux toString world request)) =
        [Flux \<lparr>flux_prompt = buildPrompt toString request,
               negative_prompt = buildNegativePrompt,
               image_size = flux_size (resolution (options request)),
               flux_num_images = count (options request),
               seed = Math_random world\<rparr>]) \<and>
   (truthy (FAL_KEY (env world)) \<longrightarrow>
      fetched (fst (generateWithNanoBanana toString world request)) =
        [NanoBanana \<lparr>nano_prompt = buildPrompt toString request,
                     nano_resolution =
                       (if resolution (options request) = ''4k'' then ''4K''
                        else if resolution (options request) = ''hd'' then ''2K''
                        else ''1K''),
                     nano_num_images = count (options request),
                     aspect_ratio = ''16:9''\<rparr>]) \<and>
   (isImagen4Available (env world) \<and> google_auth world = Some (Some token) \<and> token \<noteq> [] \<longrightarrow>
      fetched (fst (generateWithImagen toString world request)) =
        [Imagen \<lparr>imagen_prompt = buildPrompt toString request,
                 negativePrompt = buildNegativePrompt,
                 sampleCount = count (options request),
                 aspectRatio = ''16:9''\<rparr>]) \<and>
   (isImagen4Available (env world) \<and> google_auth world = Some (Some token) \<and> token \<noteq> [] \<and>
    imagen_api world \<lparr>imagen_prompt = buildPrompt toString request,
                       negativePrompt = buildNegativePrompt,
                       sampleCount = count (options request),
                       aspectRatio = ''16:9''\<rparr> = Json predictions \<longrightarrow>
      (\<exists>out. snd (generateWithImagen toString world request) = Inr out \<and>
         map (\<lambda>img. (width img, height img)) (images out) =
           map (\<lambda>prediction. imagen_getImageSize (resolution (options request))) predictions)) \<and>
   (truthy (FAL_KEY (env world)) \<and>
    nano_banana_api world
      \<lparr>nano_prompt = buildPrompt toString request,
       nano_resolution =
         (if resolution (options request) = ''4k'' then ''4K''
          else if resolution (options request) = ''hd'' then ''2K''
          else ''1K''),
       nano_num_images = count (options request),
       aspect_ratio = ''16:9''\<rparr> = Json answered \<longrightarrow>
      (\<exists>out. snd (generateWithNanoBanana toString world request) = Inr out \<and>
         map (\<lambda>img. (width img, height img)) (images out) =
           map (\<lambda>img.
                  (case nano_width img of
                     None \<Rightarrow> fst (nano_getImageSize (resolution (options request)))
                   | Some n \<Rightarrow>
                       if n = 0 then fst (nano_getImageSize (resolution (options request)))
                       else n,
                   case nano_height img of
                     None \<Rightarrow> snd (nano_getImageSize (resolution (options request)))
                   | Some n \<Rightarrow>
                       if n = 0 then snd (nano_getImageSize (resolution (options request)))
                       else n))
               answered))"
proof (intro conjI ballI impI; (elim conjE)?)
  fix t assume t: "t \<in> set Resolution"
  from t show "\<exists>w h. flux_size t = (Some w, Some h) \<and> h < w"
    by (rule tier_cases) (simp_all add: flux_size_tiers)
  from t show "snd (imagen_getImageSize t) < fst (imagen_getImageSize t)"
    by (rule tier_cases) (simp_all add: imagen_size_tiers)
  from t show "snd (nano_getImageSize t) < fst (nano_getImageSize t)"
    by (rule tier_cases) (simp_all add: nano_size_tiers)
next
  assume "truthy (FAL_KEY (env world))"
  then show "fetched (fst (generateWithFlux toString world request)) =
        [Flux \<lparr>flux_prompt = buildPrompt toString request,
               negative_prompt = buildNegativePrompt,
               image_size = flux_size (resolution (options request)),
               flux_num_images = count (options request),
               seed = Math_random world\<rparr>]"
    by (rule flux_configured_sends)
next
  assume "truthy (FAL_KEY (env world))"
  then show "fetched (fst (generateWithNanoBanana toString world request)) =
        [NanoBanana \<lparr>nano_prompt = buildPrompt toString request,
                     nano_resolution =
                       (if resolution (options request) = ''4k'' then ''4K''
                        else if resolution (options request) = ''hd'' then ''2K''
                        else ''1K''),
                     nano_num_images = count (options request),
                     aspect_ratio = ''16:9''\<rparr>]"
    by (rule nano_configured_sends)
next
  assume "isImagen4Available (env world)" "google_auth world = Some (Some token)" "token \<noteq> []"
  then show "fetched (fst (generateWithImagen toString world request)) =
        [Imagen \<lparr>imagen_prompt = buildPrompt toString request,
                 negativePrompt = buildNegativePrompt,
                 sampleCount = count (options request),
                 aspectRatio = ''16:9''\<rparr>]"
    by (rule imagen_configured_sends)
next
  assume a: "isImagen4Available (env world)" "google_auth world = Some (Some token)" "token \<noteq> []"
    "imagen_api world \<lparr>imagen_prompt = buildPrompt toString request,
                       negativePrompt = buildNegativePrompt,
                       sampleCount = count (options request),
                       aspectRatio = ''16:9''\<rparr> = Json predictions"
  from imagen_answered [OF a]
  show "\<exists>out. snd (generateWithImagen toString world request) = Inr out \<and>
         map (\<lambda>img. (width img, height img)) (images out) =
           map (\<lambda>prediction. imagen_getImageSize (resolution (options request))) predictions"
    by blast
next
  assume a: "truthy (FAL_KEY (env world))"
    "nano_banana_api world
      \<lparr>nano_prompt = buildPrompt toString request,
       nano_resolution =
         (if resolution (options request) = ''4k'' then ''4K''
          else if resolution (options request) = ''hd'' then ''2K''
          else ''1K''),
       nano_num_images = count (options request),
       aspect_ratio = ''16:9''\<rparr> = Json answered"
  from nano_answered [OF a]
  show "\<exists>out. snd (generateWithNanoBanana toString world request) = Inr out \<and>
         map (\<lambda>img. (width img, height img)) (images out) =
           map (\<lambda>img.
                  (case nano_width img of
                     None \<Rightarrow> fst (nano_getImageSize (resolution (options request)))
                   | Some n \<Rightarrow>
                       if n = 0 then fst (nano_getImageSize (resolution (options request)))
                       else n,
                   case nano_height img of
                     None \<Rightarrow> snd (nano_getImageSize (resolution (options request)))
                   | Some n \<Rightarrow>
                       if n = 0 then snd (nano_getImageSize (resolution (options request)))
                       else n))
               answered"
    by blast
qed (simp_all add: flux_size_tiers imagen_size_tiers nano_size_tiers)

lemma fal_key_set: "truthy (FAL_KEY (env (answering_world env_fal)))"
  by (simp add: answering_world_def env_fal_def truthy_def)

lemma example_options:
  "resolution (options example_request) = ''hd''" "count (options example_request) = 1"
  by (simp_all add: example_request_def)

lemma google_world_facts:
  "google_auth (answering_world env_google) = Some (Some ''ya29.token'')"
  "imagen_api (answering_world env_google) sent
     = Json [\<lparr>bytesBase64Encoded = ''iVBORw0KGgo='', mimeType = ''image/png''\<rparr>]"
  by (simp_all add: answering_world_def)

lemma fal_world_facts:
  "Math_random (answering_world env_fal) = 424242"
  "nano_banana_api (answering_world env_fal) input
     = Json [\<lparr>nano_url = ''https://fal.media/nano.jpg'', nano_width = None, nano_height = None\<rparr>]"
  by (simp_all add: answering_world_def)

theorem resolution_tiers_are_landscape_witness:
  "''hd'' \<in> set Resolution \<and>
   truthy (FAL_KEY (env (answering_world env_fal))) \<and>
   isImagen4Available (env (answering_world env_google)) \<and>
   snd (imagen_getImageSize ''hd'') < fst (imagen_getImageSize ''hd'') \<and>
   snd (nano_getImageSize ''hd'') < fst (nano_getImageSize ''hd'') \<and>
   fetched (fst (generateWithFlux decimal (answering_world env_fal) example_request)) =
     [Flux \<lparr>flux_prompt = buildPrompt decimal example_request,
            negative_prompt = buildNegativePrompt,
            image_size = (Some 1536, Some 1024),
            flux_num_images = 1,
            seed = 424242\<rparr>] \<and>
   fetched (fst (generateWithNanoBanana decimal (answering_world env_fal) example_request)) =
     [NanoBanana \<lparr>nano_prompt = buildPrompt decimal example_request,
                  nano_resolution = ''2K'',
                  nano_num_images = 1,
                  aspect_ratio = ''16:9''\<rparr>] \<and>
   map (\<lambda>img. (width img, height img))
     (images (projr (snd (generateWithNanoBanana decimal (answering_world env_fal)
        example_request)))) = [(1920, 1080)] \<and>
   fetched (fst (generateWithImagen decimal (answering_world env_google) example_request)) =
     [Imagen \<lparr>imagen_prompt = buildPrompt decimal example_request,
              negativePrompt = buildNegativePrompt,
              sampleCount = 1,
              aspectRatio = ''16:9''\<rparr>] \<and>
   map (\<lambda>img. (width img, height img))
     (images (projr (snd (generateWithImagen decimal (answering_world env_google)
        example_request)))) = [(1920, 1080)]"
proof -
  note F = resolution_tiers_are_landscape
    [where toString = decimal and world = "answering_world env_fal"
       and request = example_request and token = "''ya29.token''" and predictions = "[]"
       and answered = "[\<lparr>nano_url = ''https://fal.media/nano.jpg'',
                          nano_width = None, nano_height = None\<rparr>]"]
  note G = resolution_tiers_are_landscape
    [where toString = decimal and world = "answering_world env_google"
       and request = example_request and token = "''ya29.token''"
       and predictions = "[\<lparr>bytesBase64Encoded = ''iVBORw0KGgo='',
                             mimeType = ''image/png''\<rparr>]"
       and answered = "[]"]
  have t: "''hd'' \<in> set Resolution" by (simp add: Resolution_def)
  from F [THEN conjunct1, rule_format, OF t]
  have l: "snd (imagen_getImageSize ''hd'') < fst (imagen_getImageSize ''hd'')"
    "snd (nano_getImageSize ''hd'') < fst (nano_getImageSize ''hd'')"
    by blast+
  from F have
    "truthy (FAL_KEY (env (answering_world env_fal))) \<longrightarrow>
      fetched (fst (generateWithFlux decimal (answering_world env_fal) example_request)) =
        [Flux \<lparr>flux_prompt = buildPrompt decimal example_request,
               negative_prompt = buildNegativePrompt,
               image_size = flux_size (resolution (options example_request)),
               flux_num_images = count (options example_request),
               seed = Math_random (answering_world env_fal)\<rparr>]"
    by (elim conjE)
  from this [THEN mp, OF fal_key_set]
  have f: "fetched (fst (generateWithFlux decimal (answering_world env_fal) example_request)) =
     [Flux \<lparr>flux_prompt = buildPrompt decimal example_request,
            negative_prompt = buildNegativePrompt,
            image_size = (Some 1536, Some 1024),
            flux_num_images = 1,
            seed = 424242\<rparr>]"
    by (simp add: example_options flux_size_tiers fal_world_facts)
  from F have
    "truthy (FAL_KEY (env (answering_world env_fal))) \<longrightarrow>
      fetched (fst (generateWithNanoBanana decimal (answering_world env_fal) example_request)) =
        [NanoBanana \<lparr>nano_prompt = buildPrompt decimal example_request,
                     nano_resolution =
                       (if resolution (options example_request) = ''4k'' then ''4K''
                        else if resolution (options example_request) = ''hd'' then ''2K''
                        else ''1K''),
                     nano_num_images = count (options example_request),
                     aspect_ratio = ''16:9''\<rparr>]"
    by (elim conjE)
  from this [THEN mp, OF fal_key_set]
  have n: "fetched (fst (generateWithNanoBanana decimal (answering_world env_fal) example_request)) =
     [NanoBanana \<lparr>nano_prompt = buildPrompt decimal example_request,
                  nano_resolution = ''2K'',
                  nano_num_images = 1,
                  aspect_ratio = ''16:9''\<rparr>]"
    by (simp add: example_options)
  from F have
    "truthy (FAL_KEY (env (answering_world env_fal))) \<and>
     nano_banana_api (answering_world env_fal)
       \<lparr>nano_prompt = buildPrompt decimal example_request,
        nano_resolution =
          (if resolution (options example_request) = ''4k'' then ''4K''
           else if resolution (options example_request) = ''hd'' then ''2K''
           else ''1K''),
        nano_num_images = count (options example_request),
        aspect_ratio = ''16:9''\<rparr>
       = Json [\<lparr>nano_url = ''https://fal.media/nano.jpg'',
                 nano_width = None, nano_height = None\<rparr>] \<longrightarrow>
      (\<exists>out. snd (generateWithNanoBanana decimal (answering_world env_fal) example_request)
               = Inr out \<and>
         map (\<lambda>img. (width img, height img)) (images out) =
           map (\<lambda>img.
                  (case nano_width img of
                     None \<Rightarrow> fst (nano_getImageSize (resolution (options example_request)))
                   | Some n \<Rightarrow>
                       if n = 0 then fst (nano_getImageSize (resolution (options example_request)))
                       else n,
                   case nano_height img of
                     None \<Rightarrow> snd (nano_getImageSize (resolution (options example_request)))
                   | Some n \<Rightarrow>
                       if n = 0 then snd (nano_getImageSize (resolution (options example_request)))
                       else n))
               [\<lparr>nano_url = ''https://fal.media/nano.jpg'',
                  nano_width = None, nano_height = None\<rparr>])"
    by (elim conjE)
  from this [THEN mp, OF conjI, OF fal_key_set fal_world_facts(2)]
  obtain nano_out where
    "snd (generateWithNanoBanana decimal (answering_world env_fal) example_request) = Inr nano_out"
    "map (\<lambda>img. (width img, height img)) (images nano_out) = [(1920, 1080)]"
    by (auto simp: example_options nano_size_tiers)
  then have nr: "map (\<lambda>img. (width img, height img))
     (images (projr (snd (generateWithNanoBanana decimal (answering_world env_fal)
        example_request)))) = [(1920, 1080)]"
    by simp
  from G have
    "isImagen4Available (env (answering_world env_google)) \<and>
     google_auth (answering_world env_google) = Some (Some ''ya29.token'') \<and>
     ''ya29.token'' \<noteq> [] \<longrightarrow>
      fetched (fst (generateWithImagen decimal (answering_world env_google) example_request)) =
        [Imagen \<lparr>imagen_prompt = buildPrompt decimal example_request,
                 negativePrompt = buildNegativePrompt,
                 sampleCount = count (options example_request),
                 aspectRatio = ''16:9''\<rparr>]"
    by (elim conjE)
  then have i: "fetched (fst (generateWithImagen decimal (answering_world env_google)
      example_request)) =
     [Imagen \<lparr>imagen_prompt = buildPrompt decimal example_request,
              negativePrompt = buildNegativePrompt,
              sampleCount = 1,
              aspectRatio = ''16:9''\<rparr>]"
    by (simp add: env_google_facts google_world_facts example_options)
  from G have
    "isImagen4Available (env (answering_world env_google)) \<and>
     google_auth (answering_world env_google) = Some (Some ''ya29.token'') \<and>
     ''ya29.token'' \<noteq> [] \<and>
     imagen_api (answering_world env_google)
       \<lparr>imagen_prompt = buildPrompt decimal example_request,
        negativePrompt = buildNegativePrompt,
        sampleCount = count (options example_request),
        aspectRatio = ''16:9''\<rparr>
       = Json [\<lparr>bytesBase64Encoded = ''iVBORw0KGgo='', mimeType = ''image/png''\<rparr>] \<longrightarrow>
      (\<exists>out. snd (generateWithImagen decimal (answering_world env_google) example_request)
               = Inr out \<and>
         map (\<lambda>img. (width img, height img)) (images out) =
           map (\<lambda>prediction. imagen_getImageSize (resolution (options example_request)))
             [\<lparr>bytesBase64Encoded = ''iVBORw0KGgo='', mimeType = ''image/png''\<rparr>])"
    by (elim conjE)
  then obtain imagen_out where
    "snd (generateWithImagen decimal (answering_world env_google) example_request)
       = Inr imagen_out"
    "map (\<lambda>img. (width img, height img)) (images imagen_out) = [(1920, 1080)]"
    by (auto simp: env_google_facts google_world_facts example_options imagen_size_tiers)
  then have ir: "map (\<lambda>img. (width img, height img))
     (images (projr (snd (generateWithImagen decimal (answering_world env_google)
        example_request)))) = [(1920, 1080)]"
    by simp
  from t fal_key_set env_google_facts(2) l f n nr i ir show ?thesis by (intro conjI)
qed

text \<open>
  The claim as it was written has every tier's pair used by the provider call. The Imagen
  client sends the same request for \<open>sd\<close> and for \<open>4k\<close>, whose pairs differ: its call
  carries a ratio and no pair.
\<close>

lemma imagen_call_example:
  "fetched (fst (generateWithImagen decimal (answering_world env_google)
                   (with_resolution t example_request))) =
     [Imagen \<lparr>imagen_prompt = buildPrompt decimal example_request,
              negativePrompt = buildNegativePrompt,
              sampleCount = 1,
              aspectRatio = ''16:9''\<rparr>]"
proof -
  have a: "isImagen4Available (env (answering_world env_google))"
    by (rule env_google_facts)
  have g: "google_auth (answering_world env_google) = Some (Some ''ya29.token'')"
    by (simp add: answering_world_def)
  have n: "''ya29.token'' \<noteq> []"
    by simp
  have p: "buildPrompt decimal (with_resolution t example_request)
           = buildPrompt decimal example_request"
    by (simp add: with_resolution_def buildPrompt_ignores_options)
  have c: "count (options (with_resolution t example_request)) = 1"
    by (simp add: with_resolution_def example_request_def)
  from imagen_configured_sends [OF a g n, of decimal "with_resolution t example_request"]
  show ?thesis by (simp only: p c)
qed

theorem imagen_call_without_pair_counterexample:
  "imagen_getImageSize ''sd'' \<noteq> imagen_getImageSize ''4k'' \<and>
   fetched (fst (generateWithImagen decimal (answering_world env_google)
                   (with_resolution ''sd'' example_request))) =
     [Imagen \<lparr>imagen_prompt = buildPrompt decimal example_request,
              negativePrompt = buildNegativePrompt,
              sampleCount = 1,
              aspectRatio = ''16:9''\<rparr>] \<and>
   fetched (fst (generateWithImagen decimal (answering_world env_google)
                   (with_resolution ''4k'' example_request))) =
     [Imagen \<lparr>imagen_prompt = buildPrompt decimal example_request,
              negativePrompt = buildNegativePrompt,
              sampleCount = 1,
              aspectRatio = ''16:9''\<rparr>]"
  using imagen_call_example [of "''sd''"] imagen_call_example [of "''4k''"]
  by (simp add: imagen_size_tiers)

section \<open>The tiers across providers\<close>

lemma sixteen_by_nine:
  "9 * fst (imagen_getImageSize t) = 16 * snd (imagen_getImageSize t)"
  by (simp add: imagen_getImageSize_def)

lemma nano_table_is_imagen_table: "nano_getImageSize t = imagen_getImageSize t"
  by (simp add: nano_getImageSize_def imagen_getImageSize_def)

lemma flux_pair_differs:
  assumes "t \<in> set Resolution"
  shows "flux_size t \<noteq> (Some (fst (imagen_getImageSize t)), Some (snd (imagen_getImageSize t)))"
  using assms by (rule tier_cases) (simp_all add: flux_size_tiers imagen_size_tiers)

lemma nano_reports_sizes:
  assumes "generateWithNanoBanana toString world request = (trace, Inr out)"
  shows "\<exists>sent answered.
           fetched trace = [NanoBanana sent] \<and> nano_banana_api world sent = Json answered \<and>
           map (\<lambda>img. (width img, height img)) (images out) =
             map (\<lambda>img.
                    (case nano_width img of
                       None \<Rightarrow> fst (nano_getImageSize (resolution (options request)))
                     | Some n \<Rightarrow>
                         if n = 0 then fst (nano_getImageSize (resolution (options request)))
                         else n,
                     case nano_height img of
                       None \<Rightarrow> snd (nano_getImageSize (resolution (options request)))
                     | Some n \<Rightarrow>
                         if n = 0 then snd (nano_getImageSize (resolution (options request)))
                         else n))
                 answered"
  using nano_reports [OF assms] unfolding or_else_def .

lemma auto_reports:
  assumes "model (options request) = ''auto''"
    and "generateImages toString world request = (trace, Inr out)"
  shows "(out_model out = ''imagen4'' \<longrightarrow>
            (\<forall>img \<in> set (images out).
               (width img, height img) = imagen_getImageSize (resolution (options request)))) \<and>
         (out_model out = ''nano-banana'' \<longrightarrow>
            (\<exists>sent answered.
               fetched trace = [NanoBanana sent] \<and> nano_banana_api world sent = Json answered \<and>
               map (\<lambda>img. (width img, height img)) (images out) =
                 map (\<lambda>img.
                        (case nano_width img of
                           None \<Rightarrow> fst (nano_getImageSize (resolution (options request)))
                         | Some n \<Rightarrow>
                             if n = 0 then fst (nano_getImageSize (resolution (options request)))
                             else n,
                         case nano_height img of
                           None \<Rightarrow> snd (nano_getImageSize (resolution (options request)))
                         | Some n \<Rightarrow>
                             if n = 0 then snd (nano_getImageSize (resolution (options request)))
                             else n))
                     answered))"
  using assms(2)
proof (rule success_cases)
  assume g: "generateWithNanoBanana toString world request = (trace, Inr out)"
  from nano_success [OF g] nano_reports_sizes [OF g] show ?thesis by simp
next
  assume g: "generateWithImagen toString world request = (trace, Inr out)"
  from imagen_success [OF g] imagen_reports [OF g] show ?thesis by simp
next
  assume g: "generateWithFlux toString world request = (trace, Inr out)"
  from flux_success [OF g] show ?thesis by simp
qed

lemma sized_world_facts:
  "isNanoBananaAvailable (env (sized_world env_fal))"
  "truthy (FAL_KEY (env (sized_world env_fal)))"
  "nano_banana_api (sized_world env_fal) input
     = Json [\<lparr>nano_url = ''https://fal.media/nano.jpg'',
               nano_width = Some 800, nano_height = Some 600\<rparr>]"
  by (simp_all add: sized_world_def env_fal_def isNanoBananaAvailable_def truthy_def)

lemma imagen_pair_is_not_800_by_600: "imagen_getImageSize t \<noteq> (800, 600)"
  by (simp add: imagen_getImageSize_def)

lemma auto_sizes_differ:
  assumes "model (options request) = ''auto''"
  shows "\<exists>world1 world2 trace1 out1 trace2 out2.
           generateImages toString world1 request = (trace1, Inr out1) \<and>
           generateImages toString world2 request = (trace2, Inr out2) \<and>
           out_model out1 = ''nano-banana'' \<and> out_model out2 = ''imagen4'' \<and>
           map (\<lambda>img. (width img, height img)) (images out1)
             \<noteq> map (\<lambda>img. (width img, height img)) (images out2)"
proof -
  let ?w1 = "sized_world env_fal" and ?w2 = "answering_world env_google"
  from nano_answered [OF sized_world_facts(2) sized_world_facts(3), of toString request]
  obtain out1 where o1:
    "snd (generateWithNanoBanana toString ?w1 request) = Inr out1"
    "out_model out1 = ''nano-banana''"
    "map (\<lambda>img. (width img, height img)) (images out1) = [(800, 600)]"
    by auto
  have n: "''ya29.token'' \<noteq> []" by simp
  from imagen_answered [OF env_google_facts(2) google_world_facts(1) n google_world_facts(2),
      of toString request]
  obtain out2 where o2:
    "snd (generateWithImagen toString ?w2 request) = Inr out2"
    "out_model out2 = ''imagen4''"
    "map (\<lambda>img. (width img, height img)) (images out2)
       = [imagen_getImageSize (resolution (options request))]"
    by auto
  have g1: "generateImages toString ?w1 request
            = (fst (generateWithNanoBanana toString ?w1 request), Inr out1)"
    using o1(1) by (simp add: dispatch_auto [OF assms] sized_world_facts(1) prod_eq_iff)
  have g2: "generateImages toString ?w2 request
            = (fst (generateWithImagen toString ?w2 request), Inr out2)"
    using o2(1) by (simp add: dispatch_auto [OF assms] env_google_facts prod_eq_iff)
  have "map (\<lambda>img. (width img, height img)) (images out1)
          \<noteq> map (\<lambda>img. (width img, height img)) (images out2)"
    unfolding o1(3) o2(3) using imagen_pair_is_not_800_by_600 [of "resolution (options request)"]
    by simp
  with g1 g2 o1(2) o2(2) show ?thesis by blast
qed

text \<open>
  C10, as amended. The tables are not shared. The FLUX client uses 1024 by 768 for \<open>sd\<close>,
  1536 by 1024 for \<open>hd\<close> and 2048 by 1536 for \<open>4k\<close>, which is four to three for
  \<open>sd\<close> and \<open>4k\<close> and three to two for \<open>hd\<close>, and whenever \<^verbatim>\<open>FAL_KEY\<close> is set it
  sends the pair of the request's tier. The Imagen and Nano Banana clients hold 1280 by
  720, 1920 by 1080 and 3840 by 2160, sixteen to nine throughout and different from the
  FLUX pair at every tier; the Imagen client reports its pair for every image, the Nano
  Banana client reports the size that the provider's answer gives and its pair where the
  answer gives none. So under \<open>auto\<close> the sizes reported for a tier depend on which
  provider served: for every such request there are a world served by Nano Banana and a
  world served by Imagen whose results differ in the sizes.
\<close>

theorem tier_dimensions_by_provider:
  "flux_size ''sd'' = (Some 1024, Some 768) \<and>
   flux_size ''hd'' = (Some 1536, Some 1024) \<and>
   flux_size ''4k'' = (Some 2048, Some 1536) \<and>
   (\<forall>t \<in> set [''sd'', ''4k'']. \<forall>w h. flux_size t = (Some w, Some h) \<longrightarrow> 3 * w = 4 * h) \<and>
   (\<forall>w h. flux_size ''hd'' = (Some w, Some h) \<longrightarrow> 2 * w = 3 * h) \<and>
   imagen_getImageSize ''sd'' = (1280, 720) \<and>
   imagen_getImageSize ''hd'' = (1920, 1080) \<and>
   imagen_getImageSize ''4k'' = (3840, 2160) \<and>
   (\<forall>t. nano_getImageSize t = imagen_getImageSize t) \<and>
   (\<forall>t. 9 * fst (imagen_getImageSize t) = 16 * snd (imagen_getImageSize t)) \<and>
   (\<forall>t \<in> set Resolution.
      flux_size t \<noteq> (Some (fst (imagen_getImageSize t)), Some (snd (imagen_getImageSize t)))) \<and>
   (truthy (FAL_KEY (env world)) \<longrightarrow>
      fetched (fst (generateWithFlux toString world request)) =
        [Flux \<lparr>flux_prompt = buildPrompt toString request,
               negative_prompt = buildNegativePrompt,
               image_size = flux_size (resolution (options request)),
               flux_num_images = count (options request),
               seed = Math_random world\<rparr>]) \<and>
   (isImagen4Available (env world) \<and> google_auth world = Some (Some token) \<and> token \<noteq> [] \<and>
    imagen_api world \<lparr>imagen_prompt = buildPrompt toString request,
                       negativePrompt = buildNegativePrompt,
                       sampleCount = count (options request),
                       aspectRatio = ''16:9''\<rparr> = Json predictions \<longrightarrow>
      (\<exists>out. snd (generateWithImagen toString world request) = Inr out \<and>
         out_model out = ''imagen4'' \<and>
         map (\<lambda>img. (width img, height img)) (images out) =
           map (\<lambda>prediction. imagen_getImageSize (resolution (options request))) predictions)) \<and>
   (truthy (FAL_KEY (env world)) \<and>
    nano_banana_api world
      \<lparr>nano_prompt = buildPrompt toString request,
       nano_resolution =
         (if resolution (options request) = ''4k'' then ''4K''
          else if resolution (options request) = ''hd'' then ''2K''
          else ''1K''),
       nano_num_images = count (options request),
       aspect_ratio = ''16:9''\<rparr> = Json answered \<longrightarrow>
      (\<exists>out. snd (generateWithNanoBanana toString world request) = Inr out \<and>
         out_model out = ''nano-banana'' \<and>
         map (\<lambda>img. (width img, height img)) (images out) =
           map (\<lambda>img.
                  (case nano_width img of
                     None \<Rightarrow> fst (nano_getImageSize (resolution (options request)))
                   | Some n \<Rightarrow>
                       if n = 0 then fst (nano_getImageSize (resolution (options request)))
                       else n,
                   case nano_height img of
                     None \<Rightarrow> snd (nano_getImageSize (resolution (options request)))
                   | Some n \<Rightarrow>
                       if n = 0 then snd (nano_getImageSize (resolution (options request)))
                       else n))
               answered)) \<and>
   (model (options request) = ''auto'' \<longrightarrow>
      (\<forall>trace out. generateImages toString world request = (trace, Inr out) \<longrightarrow>
         (out_model out = ''imagen4'' \<longrightarrow>
            (\<forall>img \<in> set (images out).
               (width img, height img) = imagen_getImageSize (resolution (options request)))) \<and>
         (out_model out = ''nano-banana'' \<longrightarrow>
            (\<exists>sent answered.
               fetched trace = [NanoBanana sent] \<and> nano_banana_api world sent = Json answered \<and>
               map (\<lambda>img. (width img, height img)) (images out) =
                 map (\<lambda>img.
                        (case nano_width img of
                           None \<Rightarrow> fst (nano_getImageSize (resolution (options request)))
                         | Some n \<Rightarrow>
                             if n = 0 then fst (nano_getImageSize (resolution (options request)))
                             else n,
                         case nano_height img of
                           None \<Rightarrow> snd (nano_getImageSize (resolution (options request)))
                         | Some n \<Rightarrow>
                             if n = 0 then snd (nano_getImageSize (resolution (options request)))
                             else n))
                     answered)))) \<and>
   (model (options request) = ''auto'' \<longrightarrow>
      (\<exists>world1 world2 trace1 out1 trace2 out2.
         generateImages toString world1 request = (trace1, Inr out1) \<and>
         generateImages toString world2 request = (trace2, Inr out2) \<and>
         out_model out1 = ''nano-banana'' \<and> out_model out2 = ''imagen4'' \<and>
         map (\<lambda>img. (width img, height img)) (images out1)
           \<noteq> map (\<lambda>img. (width img, height img)) (images out2)))"
proof -
  have tables:
    "flux_size ''sd'' = (Some 1024, Some 768)"
    "flux_size ''hd'' = (Some 1536, Some 1024)"
    "flux_size ''4k'' = (Some 2048, Some 1536)"
    "imagen_getImageSize ''sd'' = (1280, 720)"
    "imagen_getImageSize ''hd'' = (1920, 1080)"
    "imagen_getImageSize ''4k'' = (3840, 2160)"
    by (rule flux_size_tiers imagen_size_tiers)+
  have ratio43: "\<forall>t \<in> set [''sd'', ''4k'']. \<forall>w h. flux_size t = (Some w, Some h) \<longrightarrow> 3 * w = 4 * h"
    by (auto simp: flux_size_tiers)
  have ratio32: "\<forall>w h. flux_size ''hd'' = (Some w, Some h) \<longrightarrow> 2 * w = 3 * h"
    by (auto simp: flux_size_tiers)
  have shared: "\<forall>t. nano_getImageSize t = imagen_getImageSize t"
    by (simp add: nano_table_is_imagen_table)
  have ratio169: "\<forall>t. 9 * fst (imagen_getImageSize t) = 16 * snd (imagen_getImageSize t)"
    by (simp add: sixteen_by_nine)
  have differ: "\<forall>t \<in> set Resolution.
      flux_size t \<noteq> (Some (fst (imagen_getImageSize t)), Some (snd (imagen_getImageSize t)))"
    by (simp add: flux_pair_differs)
  note flux = flux_configured_sends [of world toString request]
  note imagen = imagen_answered [of world token toString request predictions]
  note nano = nano_answered [of world toString request answered]
  note auto1 = auto_reports [of request toString world]
  note auto2 = auto_sizes_differ [of request toString]
  show ?thesis
    apply (intro conjI)
                  apply (rule tables ratio43 ratio32 shared ratio169 differ)+
       apply (rule impI, erule flux)
      apply (rule impI, elim conjE, erule (3) imagen)
     apply (rule impI, elim conjE, erule (1) nano)
    apply (intro impI allI, erule (1) auto1)
    apply (rule impI, erule auto2)
    done
qed

theorem tier_dimensions_by_provider_witness:
  "model (options example_request) = ''auto'' \<and>
   ''hd'' \<in> set Resolution \<and>
   truthy (FAL_KEY (env (answering_world env_fal))) \<and>
   truthy (FAL_KEY (env (sized_world env_fal))) \<and>
   isImagen4Available (env (answering_world env_google)) \<and>
   flux_size ''hd'' \<noteq> (Some (fst (imagen_getImageSize ''hd'')), Some (snd (imagen_getImageSize ''hd''))) \<and>
   fetched (fst (generateWithFlux decimal (answering_world env_fal) example_request)) =
     [Flux \<lparr>flux_prompt = buildPrompt decimal example_request,
            negative_prompt = buildNegativePrompt,
            image_size = (Some 1536, Some 1024),
            flux_num_images = 1,
            seed = 424242\<rparr>] \<and>
   out_model (projr (snd (generateImages decimal (sized_world env_fal) example_request)))
     = ''nano-banana'' \<and>
   map (\<lambda>img. (width img, height img))
     (images (projr (snd (generateImages decimal (sized_world env_fal) example_request))))
     = [(800, 600)] \<and>
   out_model (projr (snd (generateImages decimal (answering_world env_google) example_request)))
     = ''imagen4'' \<and>
   map (\<lambda>img. (width img, height img))
     (images (projr (snd (generateImages decimal (answering_world env_google) example_request))))
     = [(1920, 1080)]"
proof -
  note F = tier_dimensions_by_provider
    [where toString = decimal and world = "answering_world env_fal"
       and request = example_request and token = "''ya29.token''" and predictions = "[]"
       and answered = "[]"]
  note S = tier_dimensions_by_provider
    [where toString = decimal and world = "sized_world env_fal"
       and request = example_request and token = "''ya29.token''" and predictions = "[]"
       and answered = "[\<lparr>nano_url = ''https://fal.media/nano.jpg'',
                          nano_width = Some 800, nano_height = Some 600\<rparr>]"]
  note G = tier_dimensions_by_provider
    [where toString = decimal and world = "answering_world env_google"
       and request = example_request and token = "''ya29.token''"
       and predictions = "[\<lparr>bytesBase64Encoded = ''iVBORw0KGgo='',
                             mimeType = ''image/png''\<rparr>]"
       and answered = "[]"]
  have t: "''hd'' \<in> set Resolution" by (simp add: Resolution_def)
  from F have "\<forall>t \<in> set Resolution.
      flux_size t \<noteq> (Some (fst (imagen_getImageSize t)), Some (snd (imagen_getImageSize t)))"
    by (elim conjE)
  from this [rule_format, OF t]
  have d: "flux_size ''hd''
      \<noteq> (Some (fst (imagen_getImageSize ''hd'')), Some (snd (imagen_getImageSize ''hd'')))" .
  from F have
    "truthy (FAL_KEY (env (answering_world env_fal))) \<longrightarrow>
      fetched (fst (generateWithFlux decimal (answering_world env_fal) example_request)) =
        [Flux \<lparr>flux_prompt = buildPrompt decimal example_request,
               negative_prompt = buildNegativePrompt,
               image_size = flux_size (resolution (options example_request)),
               flux_num_images = count (options example_request),
               seed = Math_random (answering_world env_fal)\<rparr>]"
    by (elim conjE)
  from this [THEN mp, OF fal_key_set]
  have f: "fetched (fst (generateWithFlux decimal (answering_world env_fal) example_request)) =
     [Flux \<lparr>flux_prompt = buildPrompt decimal example_request,
            negative_prompt = buildNegativePrompt,
            image_size = (Some 1536, Some 1024),
            flux_num_images = 1,
            seed = 424242\<rparr>]"
    by (simp add: example_options flux_size_tiers fal_world_facts)
  from S have
    "truthy (FAL_KEY (env (sized_world env_fal))) \<and>
     nano_banana_api (sized_world env_fal)
       \<lparr>nano_prompt = buildPrompt decimal example_request,
        nano_resolution =
          (if resolution (options example_request) = ''4k'' then ''4K''
           else if resolution (options example_request) = ''hd'' then ''2K''
           else ''1K''),
        nano_num_images = count (options example_request),
        aspect_ratio = ''16:9''\<rparr>
       = Json [\<lparr>nano_url = ''https://fal.media/nano.jpg'',
                 nano_width = Some 800, nano_height = Some 600\<rparr>] \<longrightarrow>
      (\<exists>out. snd (generateWithNanoBanana decimal (sized_world env_fal) example_request)
               = Inr out \<and>
         out_model out = ''nano-banana'' \<and>
         map (\<lambda>img. (width img, height img)) (images out) =
           map (\<lambda>img.
                  (case nano_width img of
                     None \<Rightarrow> fst (nano_getImageSize (resolution (options example_request)))
                   | Some n \<Rightarrow>
                       if n = 0 then fst (nano_getImageSize (resolution (options example_request)))
                       else n,
                   case nano_height img of
                     None \<Rightarrow> snd (nano_getImageSize (resolution (options example_request)))
                   | Some n \<Rightarrow>
                       if n = 0 then snd (nano_getImageSize (resolution (options example_request)))
                       else n))
               [\<lparr>nano_url = ''https://fal.media/nano.jpg'',
                  nano_width = Some 800, nano_height = Some 600\<rparr>])"
    by (elim conjE)
  from this [THEN mp, OF conjI, OF sized_world_facts(2) sized_world_facts(3)]
  obtain nano_out where
    "snd (generateWithNanoBanana decimal (sized_world env_fal) example_request) = Inr nano_out"
    "out_model nano_out = ''nano-banana''"
    "map (\<lambda>img. (width img, height img)) (images nano_out) = [(800, 600)]"
    by auto
  moreover have "snd (generateImages decimal (sized_world env_fal) example_request)
      = snd (generateWithNanoBanana decimal (sized_world env_fal) example_request)"
    by (simp add: dispatch_auto [OF example_auto] sized_world_facts(1))
  ultimately have n:
    "out_model (projr (snd (generateImages decimal (sized_world env_fal) example_request)))
       = ''nano-banana''"
    "map (\<lambda>img. (width img, height img))
       (images (projr (snd (generateImages decimal (sized_world env_fal) example_request))))
       = [(800, 600)]"
    by simp_all
  from G have
    "isImagen4Available (env (answering_world env_google)) \<and>
     google_auth (answering_world env_google) = Some (Some ''ya29.token'') \<and>
     ''ya29.token'' \<noteq> [] \<and>
     imagen_api (answering_world env_google)
       \<lparr>imagen_prompt = buildPrompt decimal example_request,
        negativePrompt = buildNegativePrompt,
        sampleCount = count (options example_request),
        aspectRatio = ''16:9''\<rparr>
       = Json [\<lparr>bytesBase64Encoded = ''iVBORw0KGgo='', mimeType = ''image/png''\<rparr>] \<longrightarrow>
      (\<exists>out. snd (generateWithImagen decimal (answering_world env_google) example_request)
               = Inr out \<and>
         out_model out = ''imagen4'' \<and>
         map (\<lambda>img. (width img, height img)) (images out) =
           map (\<lambda>prediction. imagen_getImageSize (resolution (options example_request)))
             [\<lparr>bytesBase64Encoded = ''iVBORw0KGgo='', mimeType = ''image/png''\<rparr>])"
    by (elim conjE)
  then obtain imagen_out where
    "snd (generateWithImagen decimal (answering_world env_google) example_request)
       = Inr imagen_out"
    "out_model imagen_out = ''imagen4''"
    "map (\<lambda>img. (width img, height img)) (images imagen_out) = [(1920, 1080)]"
    by (auto simp: env_google_facts google_world_facts example_options imagen_size_tiers)
  moreover have "snd (generateImages decimal (answering_world env_google) example_request)
      = snd (generateWithImagen decimal (answering_world env_google) example_request)"
    by (simp add: dispatch_auto [OF example_auto] env_google_facts)
  ultimately have i:
    "out_model (projr (snd (generateImages decimal (answering_world env_google) example_request)))
       = ''imagen4''"
    "map (\<lambda>img. (width img, height img))
       (images (projr (snd (generateImages decimal (answering_world env_google) example_request))))
       = [(1920, 1080)]"
    by simp_all
  from example_auto t fal_key_set sized_world_facts(2) env_google_facts(2) d f n i
  show ?thesis by (intro conjI)
qed

text \<open>
  The claim as it was written calls all three FLUX pairs four to three. The pair of
  \<open>hd\<close> is 1536 by 1024, and three times 1536 is not four times 1024.
\<close>

theorem flux_hd_pair_counterexample:
  "flux_size ''hd'' = (Some 1536, Some 1024) \<and> (3::nat) * 1536 \<noteq> 4 * 1024"
  by (simp add: flux_size_tiers)

end
